theory Spec2Isabelle
  imports Main "HOL-Library.AList"
begin

section \<open>Block.ts: the block assembly stage of the DOM generator\<close>

text \<open>
  The source is \<^verbatim>\<open>src/generators/dom/Block.ts\<close>. A Block owns eight code builders,
  a dependency set, a map of declared variables and a map of aliases; all of them are
  JavaScript objects, created by the constructor and mutated in place by the methods.
  The embedding keeps them in an explicit store, addressed by references, so that
  who shares what with whom is a matter of proof.
\<close>

subsection \<open>JavaScript values\<close>

text \<open>
  A value of type \<^verbatim>\<open>string\<close> that may also be \<^verbatim>\<open>undefined\<close> or \<^verbatim>\<open>null\<close> is a
  \<open>string option\<close>. \<open>truthy\<close> is the test of \<^verbatim>\<open>if (x)\<close> and \<^verbatim>\<open>!x\<close> on
  such a value: the empty string is falsy as well. \<open>tpl\<close> is the text a template
  literal \<^verbatim>\<open>${x}\<close> puts for it.
\<close>

fun truthy :: "string option \<Rightarrow> bool" where
  "truthy None = False"
| "truthy (Some v) = (v \<noteq> [])"

fun tpl :: "string option \<Rightarrow> string" where
  "tpl None = ''undefined''"
| "tpl (Some v) = v"

text \<open>\<^verbatim>\<open>Array.prototype.join\<close>.\<close>

fun join :: "string \<Rightarrow> string list \<Rightarrow> string" where
  "join sep [] = []"
| "join sep [x] = x"
| "join sep (x # y # ys) = x @ sep @ join sep (y # ys)"

text \<open>
  The decimal text of a count, as \<^verbatim>\<open>${this.outros}\<close> prints the number of outro
  participants.
\<close>

definition digit :: "nat \<Rightarrow> char" where
  "digit d = ''0123456789'' ! d"

fun number :: "nat \<Rightarrow> string" where
  "number n = (if n < 10 then [digit n] else number (n div 10) @ [digit (n mod 10)])"

declare number.simps [simp del]

datatype error =
  Error string        \<comment> \<open>\<^verbatim>\<open>throw new Error(message)\<close>\<close>
| TypeError           \<comment> \<open>a property read or a call on \<^verbatim>\<open>undefined\<close>\<close>

subsection \<open>Code builders\<close>

text \<open>
  Block.ts imports \<^verbatim>\<open>CodeBuilder\<close> from \<^verbatim>\<open>src/utils/CodeBuilder\<close> and \<^verbatim>\<open>deindent\<close>
  from \<^verbatim>\<open>src/utils/deindent\<close>; neither file is under \<^verbatim>\<open>src/\<close> here, so both follow
  the spec (4.1 and 6). A builder is an ordered buffer of opaque code fragments. A
  text is kept as its lines; the indentation and the blank lines that the two
  utilities put between fragments are layout and are left out.
\<close>

type_synonym fragment = "string list"
type_synonym CodeBuilder = "fragment list"

text \<open>
  Modelled from the spec: \<^verbatim>\<open>CodeBuilder.addLine\<close>, missing from \<^verbatim>\<open>src/\<close>; spec 4.1,
  append: the fragment, one line, is added at the end.
\<close>

definition cb_addLine :: "string \<Rightarrow> CodeBuilder \<Rightarrow> CodeBuilder" where
  "cb_addLine line cb = cb @ [[line]]"

text \<open>
  Modelled from the spec: \<^verbatim>\<open>CodeBuilder.addBlock\<close>, missing from \<^verbatim>\<open>src/\<close>; spec 4.1,
  append: the fragment, a text of several lines, is added at the end.
\<close>

definition cb_addBlock :: "fragment \<Rightarrow> CodeBuilder \<Rightarrow> CodeBuilder" where
  "cb_addBlock block cb = cb @ [block]"

text \<open>
  Modelled from the spec: \<^verbatim>\<open>CodeBuilder.addBlockAtStart\<close> with a text as argument,
  missing from \<^verbatim>\<open>src/\<close>; spec 4.1, prependBlock: the fragment is inserted at the start.
\<close>

definition cb_addBlockAtStart :: "fragment \<Rightarrow> CodeBuilder \<Rightarrow> CodeBuilder" where
  "cb_addBlockAtStart block cb = block # cb"

text \<open>
  Modelled from the spec: \<^verbatim>\<open>CodeBuilder.addBlockAtStart\<close> with a builder as argument
  (line 229), missing from \<^verbatim>\<open>src/\<close>; spec 2 and 3: the other builder is spliced in at
  the start, its fragments in their order.
\<close>

definition cb_spliceAtStart :: "CodeBuilder \<Rightarrow> CodeBuilder \<Rightarrow> CodeBuilder" where
  "cb_spliceAtStart other cb = other @ cb"

text \<open>
  Modelled from the spec: \<^verbatim>\<open>CodeBuilder.isEmpty\<close>, missing from \<^verbatim>\<open>src/\<close>; spec 4.1:
  whether any fragment has been added.
\<close>

definition isEmpty :: "CodeBuilder \<Rightarrow> bool" where
  "isEmpty cb = (cb = [])"

text \<open>
  Modelled from the spec: \<^verbatim>\<open>CodeBuilder.toString\<close>, missing from \<^verbatim>\<open>src/\<close>, which a
  template calls on an interpolated builder; spec 4.1: all fragments in their final
  order.
\<close>

definition toString :: "CodeBuilder \<Rightarrow> fragment" where
  "toString cb = concat cb"

subsection \<open>The store\<close>

text \<open>
  One heap for each kind of object that Block.ts creates: code builders,
  \<^verbatim>\<open>Set<string>\<close>, \<^verbatim>\<open>Map<string, string>\<close> (insertion-ordered, a value may be
  \<^verbatim>\<open>undefined\<close>) and the memory of a \<^verbatim>\<open>getUniqueName\<close> closure. \<open>fresh\<close> is the next
  unused reference; \<^verbatim>\<open>new\<close> takes it and moves it on.
\<close>

type_synonym ref = nat

record store =
  cbs :: "ref \<Rightarrow> CodeBuilder"
  sets :: "ref \<Rightarrow> string set"
  maps :: "ref \<Rightarrow> (string \<times> string option) list"
  used :: "ref \<Rightarrow> string list"
  fresh :: ref

definition new_CodeBuilder :: "store \<Rightarrow> ref \<times> store" where
  "new_CodeBuilder s = (fresh s, s\<lparr>cbs := (cbs s)(fresh s := []), fresh := Suc (fresh s)\<rparr>)"

definition new_Set :: "store \<Rightarrow> ref \<times> store" where
  "new_Set s = (fresh s, s\<lparr>sets := (sets s)(fresh s := {}), fresh := Suc (fresh s)\<rparr>)"

definition new_Map :: "store \<Rightarrow> ref \<times> store" where
  "new_Map s = (fresh s, s\<lparr>maps := (maps s)(fresh s := []), fresh := Suc (fresh s)\<rparr>)"

text \<open>The methods of \<^verbatim>\<open>Map\<close> that Block.ts calls, on the contents of a map.\<close>

definition has :: "(string \<times> string option) list \<Rightarrow> string \<Rightarrow> bool" where
  "has m k = (map_of m k \<noteq> None)"

definition get :: "(string \<times> string option) list \<Rightarrow> string \<Rightarrow> string option" where
  "get m k = (case map_of m k of None \<Rightarrow> None | Some v \<Rightarrow> v)"

definition keys :: "(string \<times> string option) list \<Rightarrow> string list" where
  "keys m = map fst m"

text \<open>The builder operations on a builder object of the store.\<close>

definition addLine :: "ref \<Rightarrow> string \<Rightarrow> store \<Rightarrow> store" where
  "addLine r line s = s\<lparr>cbs := (cbs s)(r := cb_addLine line (cbs s r))\<rparr>"

definition addBlockAtStart :: "ref \<Rightarrow> fragment \<Rightarrow> store \<Rightarrow> store" where
  "addBlockAtStart r block s = s\<lparr>cbs := (cbs s)(r := cb_addBlockAtStart block (cbs s r))\<rparr>"

definition spliceAtStart :: "ref \<Rightarrow> ref \<Rightarrow> store \<Rightarrow> store" where
  "spliceAtStart r other s = s\<lparr>cbs := (cbs s)(r := cb_spliceAtStart (cbs s other) (cbs s r))\<rparr>"

subsection \<open>The generator\<close>

text \<open>
  Modelled from the spec: the class \<^verbatim>\<open>DomGenerator\<close> of \<^verbatim>\<open>./index\<close>, missing from
  \<^verbatim>\<open>src/\<close>, of which Block.ts uses two services (spec 6). \<open>helper\<close> is the lookup
  in the helper registry: from the name of a runtime helper to the text that refers
  to it. \<open>getUniqueNameMaker\<close> is the unique-name allocator: the closure it returns
  remembers the names it has handed out and answers a wish with a name chosen from
  that memory and the wish. Which name it chooses is left to the generator.
\<close>

record DomGenerator =
  helper :: "string \<Rightarrow> string"
  getUniqueNameMaker :: "string list \<Rightarrow> string \<Rightarrow> string"

text \<open>
  Modelled from the spec: a call of the closure \<^verbatim>\<open>getUniqueName\<close> that
  \<^verbatim>\<open>getUniqueNameMaker\<close> returns, missing from \<^verbatim>\<open>src/\<close>. The memory of the closure
  is the cell \<open>r\<close> of the store; it starts from the block's params (line 105) and
  grows by every name handed out.
\<close>

definition uniqueName :: "DomGenerator \<Rightarrow> ref \<Rightarrow> string \<Rightarrow> store \<Rightarrow> string \<times> store" where
  "uniqueName g r wish s =
     (let alias = getUniqueNameMaker g (used s r) wish
      in (alias, s\<lparr>used := (used s)(r := alias # used s r)\<rparr>))"

subsection \<open>BlockOptions and Block\<close>

text \<open>
  The interface \<^verbatim>\<open>BlockOptions\<close> (lines 6 to 21). A field marked \<^verbatim>\<open>?\<close> is an option,
  \<open>None\<close> when the caller's object does not have it. Maps, sets and the expression
  node are objects and appear as references; none of them is read in Block.ts.
\<close>

record BlockOptions =
  name :: string
  generator :: "DomGenerator option"
  expression :: "ref option"
  context' :: "string option"
  key :: "string option"
  contexts :: "ref option"
  indexes :: "ref option"
  contextDependencies :: "ref option"
  params :: "string list option"
  indexNames :: "ref option"
  listNames :: "ref option"
  indexName :: "string option"
  listName :: "string option"
  dependencies :: "ref option"

record Builders =
  create :: ref
  mount :: ref
  intro :: ref
  update :: ref
  outro :: ref
  unmount :: ref
  detachRaw :: ref
  destroy :: ref

text \<open>
  The class \<^verbatim>\<open>Block\<close> (lines 23 to 65). The fields that the constructor copies from
  the options keep the option they have there; \<open>generator\<close> is defined in every
  block that exists, since the constructor calls it. \<open>getUniqueName\<close> is the memory
  cell of the block's closure.
\<close>

record Block =
  generator :: DomGenerator
  name :: string
  expression :: "ref option"
  context' :: "string option"
  key :: "string option"
  first :: "string option"
  contexts :: "ref option"
  indexes :: "ref option"
  contextDependencies :: "ref option"
  dependencies :: ref
  params :: "string list option"
  indexNames :: "ref option"
  listNames :: "ref option"
  indexName :: "string option"
  listName :: "string option"
  builders :: Builders
  hasIntroMethod :: bool
  hasOutroMethod :: bool
  outros :: nat
  aliases :: ref
  variables :: ref
  getUniqueName :: ref
  component :: string
  target :: string
  hasUpdateMethod :: bool
  autofocus :: "string option"

text \<open>
  The constructor (lines 67 to 112), statement by statement. \<open>indexName\<close> is not
  among the assignments, so the field stays \<^verbatim>\<open>undefined\<close>. With no generator the
  call \<^verbatim>\<open>this.generator.getUniqueNameMaker\<close> of line 105 throws.
\<close>

definition new_Block :: "BlockOptions \<Rightarrow> store \<Rightarrow> (error + Block) \<times> store" where
  "new_Block options s0 =
     (let (dependencies0, s1) = new_Set s0;
          (create0, s2) = new_CodeBuilder s1;
          (mount0, s3) = new_CodeBuilder s2;
          (intro0, s4) = new_CodeBuilder s3;
          (update0, s5) = new_CodeBuilder s4;
          (outro0, s6) = new_CodeBuilder s5;
          (unmount0, s7) = new_CodeBuilder s6;
          (detachRaw0, s8) = new_CodeBuilder s7;
          (destroy0, s9) = new_CodeBuilder s8;
          (aliases0, s10) = new_Map s9;
          (variables0, s11) = new_Map s10
      in case BlockOptions.generator options of
           None \<Rightarrow> (Inl TypeError, s11)
         | Some g \<Rightarrow>
             (let r = fresh s11;
                  s12 = s11\<lparr>used := (used s11)
                          (r := (case BlockOptions.params options of None \<Rightarrow> [] | Some ps \<Rightarrow> ps)),
                        fresh := Suc r\<rparr>;
                  (component0, s13) = uniqueName g r ''component'' s12;
                  (target0, s14) = uniqueName g r ''target'' s13
              in (Inr \<lparr> Block.generator = g,
                        Block.name = BlockOptions.name options,
                        Block.expression = BlockOptions.expression options,
                        Block.context' = BlockOptions.context' options,
                        Block.key = BlockOptions.key options,
                        first = None,
                        Block.contexts = BlockOptions.contexts options,
                        Block.indexes = BlockOptions.indexes options,
                        Block.contextDependencies = BlockOptions.contextDependencies options,
                        Block.dependencies = dependencies0,
                        Block.params = BlockOptions.params options,
                        Block.indexNames = BlockOptions.indexNames options,
                        Block.listNames = BlockOptions.listNames options,
                        Block.indexName = None,
                        Block.listName = BlockOptions.listName options,
                        builders = \<lparr> create = create0, mount = mount0, intro = intro0,
                          update = update0, outro = outro0, unmount = unmount0,
                          detachRaw = detachRaw0, destroy = destroy0 \<rparr>,
                        hasIntroMethod = False,
                        hasOutroMethod = False,
                        outros = 0,
                        aliases = aliases0,
                        variables = variables0,
                        getUniqueName = r,
                        component = component0,
                        target = target0,
                        hasUpdateMethod = False,
                        autofocus = None \<rparr>, s14)))"

subsection \<open>The methods\<close>

text \<open>\<^verbatim>\<open>addDependencies\<close> (lines 114 to 118): \<^verbatim>\<open>forEach\<close> over the argument.\<close>

definition addDependencies :: "Block \<Rightarrow> string list \<Rightarrow> store \<Rightarrow> store" where
  "addDependencies b deps s =
     fold (\<lambda>dependency t.
            t\<lparr>sets := (sets t)(Block.dependencies b := insert dependency (sets t (Block.dependencies b)))\<rparr>)
          deps s"

text \<open>\<^verbatim>\<open>mount\<close> (lines 185 to 196); the name is taken by the builder of the mount phase.\<close>

definition mount' :: "Block \<Rightarrow> string \<Rightarrow> string option \<Rightarrow> store \<Rightarrow> store" where
  "mount' b nm parentNode s =
     (if truthy parentNode
      then addLine (create (builders b))
             (helper (Block.generator b) ''appendNode'' @ ''( '' @ nm @ '', '' @ tpl parentNode @ '' );'') s
      else addLine (mount (builders b))
             (helper (Block.generator b) ''insertNode'' @ ''( '' @ nm @ '', '' @ target b @ '', anchor );'') s)"

text \<open>\<^verbatim>\<open>addElement\<close> (lines 120 to 144).\<close>

definition addElement :: "Block \<Rightarrow> string \<Rightarrow> string \<Rightarrow> string option \<Rightarrow> bool \<Rightarrow> store \<Rightarrow> store" where
  "addElement b nm renderStatement parentNode needsIdentifier s =
     (let isToplevel = \<not> truthy parentNode;
          s1 = (if needsIdentifier \<or> isToplevel
                then mount' b nm parentNode
                       (addLine (create (builders b)) (''var '' @ nm @ '' = '' @ renderStatement @ '';'') s)
                else addLine (create (builders b))
                       (helper (Block.generator b) ''appendNode'' @ ''( '' @ renderStatement @ '', ''
                          @ tpl parentNode @ '' );'') s)
      in if isToplevel
         then addLine (unmount (builders b))
                (helper (Block.generator b) ''detachNode'' @ ''( '' @ nm @ '' );'') s1
         else s1)"

text \<open>
  \<^verbatim>\<open>addVariable\<close> (lines 146 to 154). The message of the error is the template of
  line 149; the apostrophe is the character \<open>CHR 0x27\<close>.
\<close>

definition conflict_message :: "string \<Rightarrow> string" where
  "conflict_message nm =
     ''Variable '' @ [CHR 0x27] @ nm @ [CHR 0x27]
       @ '' already initialised with a different value''"

definition addVariable :: "Block \<Rightarrow> string \<Rightarrow> string option \<Rightarrow> store \<Rightarrow> (error + unit) \<times> store" where
  "addVariable b nm init s =
     (if has (maps s (variables b)) nm \<and> get (maps s (variables b)) nm \<noteq> init
      then (Inl (Error (conflict_message nm)), s)
      else (Inr (), s\<lparr>maps := (maps s)(variables b := AList.update nm init (maps s (variables b)))\<rparr>))"

text \<open>\<^verbatim>\<open>alias\<close> (lines 156 to 162); the name is a command of Isabelle, hence the prime.\<close>

definition alias' :: "Block \<Rightarrow> string \<Rightarrow> store \<Rightarrow> string option \<times> store" where
  "alias' b nm s =
     (let s2 = (if \<not> has (maps s (aliases b)) nm
                then (let (u, s1) = uniqueName (Block.generator b) (getUniqueName b) nm s
                      in s1\<lparr>maps := (maps s1)(aliases b := AList.update nm (Some u) (maps s1 (aliases b)))\<rparr>)
                else s)
      in (get (maps s2 (aliases b)) nm, s2))"

text \<open>
  The store after the twelve allocations of the constructor, for a store \<open>s\<close>
  before them: the dependency set, the eight builders, the two maps and the
  closure's memory, which holds \<open>names\<close>.
\<close>

definition allocated :: "store \<Rightarrow> string list \<Rightarrow> store" where
  "allocated s names =
     \<lparr> cbs = (\<lambda>r. if fresh s < r \<and> r < fresh s + 9 then [] else cbs s r),
       sets = (sets s)(fresh s := {}),
       maps = (\<lambda>r. if r = fresh s + 9 \<or> r = fresh s + 10 then [] else maps s r),
       used = (used s)(fresh s + 11 := names),
       fresh = fresh s + 12 \<rparr>"

text \<open>
  \<^verbatim>\<open>child\<close> (lines 164 to 166). \<^verbatim>\<open>Object.assign({}, this, options, { parent: this })\<close>
  takes a property from \<^verbatim>\<open>options\<close> when it is there and from \<^verbatim>\<open>this\<close> otherwise;
  \<open>assign\<close> does so for the properties a BlockOptions has. The block never sets its own
  \<^verbatim>\<open>indexName\<close>, and what else the merged object carries (\<^verbatim>\<open>builders\<close>, \<^verbatim>\<open>aliases\<close>,
  \<^verbatim>\<open>parent\<close> and so on) is nothing the constructor reads.
\<close>

definition orElse :: "'a option \<Rightarrow> 'a option \<Rightarrow> 'a option" where
  "orElse x y = (case x of Some v \<Rightarrow> Some v | None \<Rightarrow> y)"

definition assign :: "Block \<Rightarrow> BlockOptions \<Rightarrow> BlockOptions" where
  "assign b options =
     \<lparr> BlockOptions.name = BlockOptions.name options,
       BlockOptions.generator = orElse (BlockOptions.generator options) (Some (Block.generator b)),
       BlockOptions.expression = orElse (BlockOptions.expression options) (Block.expression b),
       BlockOptions.context' = orElse (BlockOptions.context' options) (Block.context' b),
       BlockOptions.key = orElse (BlockOptions.key options) (Block.key b),
       BlockOptions.contexts = orElse (BlockOptions.contexts options) (Block.contexts b),
       BlockOptions.indexes = orElse (BlockOptions.indexes options) (Block.indexes b),
       BlockOptions.contextDependencies =
         orElse (BlockOptions.contextDependencies options) (Block.contextDependencies b),
       BlockOptions.params = orElse (BlockOptions.params options) (Block.params b),
       BlockOptions.indexNames = orElse (BlockOptions.indexNames options) (Block.indexNames b),
       BlockOptions.listNames = orElse (BlockOptions.listNames options) (Block.listNames b),
       BlockOptions.indexName = orElse (BlockOptions.indexName options) (Block.indexName b),
       BlockOptions.listName = orElse (BlockOptions.listName options) (Block.listName b),
       BlockOptions.dependencies =
         orElse (BlockOptions.dependencies options) (Some (Block.dependencies b)) \<rparr>"

definition child :: "Block \<Rightarrow> BlockOptions \<Rightarrow> store \<Rightarrow> (error + Block) \<times> store" where
  "child b options s = new_Block (assign b options) s"

subsection \<open>render\<close>

text \<open>
  Lines 199 to 211, twice the same three statements: when the phase has fragments, a
  flag name is allocated and declared as a variable with no initialiser, which can
  throw as \<open>addVariable\<close> does. Without fragments the local stays \<^verbatim>\<open>undefined\<close>.
\<close>

definition flag_variable :: "Block \<Rightarrow> bool \<Rightarrow> string \<Rightarrow> store \<Rightarrow> (error + string option) \<times> store" where
  "flag_variable b present wish s =
     (if present
      then (let (flag, s1) = uniqueName (Block.generator b) (getUniqueName b) wish s
            in case addVariable b flag None s1 of
                 (Inl e, s2) \<Rightarrow> (Inl e, s2)
               | (Inr u, s2) \<Rightarrow> (Inr (Some flag), s2))
      else (Inr None, s))"

text \<open>Lines 214 to 221: the combined declaration, in the order of the map's keys.\<close>

definition var_declaration :: "(string \<times> string option) list \<Rightarrow> string" where
  "var_declaration m =
     ''var '' @ join '', ''
        (map (\<lambda>k. case get m k of None \<Rightarrow> k | Some init \<Rightarrow> k @ '' = '' @ init) (keys m))
      @ '';''"

text \<open>Lines 213 to 229: what render does to the builders of the block.\<close>

definition render_phases :: "Block \<Rightarrow> store \<Rightarrow> store" where
  "render_phases b s =
     (let s1 = (if length (maps s (variables b)) \<noteq> 0
                then addBlockAtStart (create (builders b)) [var_declaration (maps s (variables b))] s
                else s);
          s2 = (if truthy (autofocus b)
                then addLine (create (builders b)) (tpl (autofocus b) @ ''.focus();'') s1
                else s1)
      in spliceAtStart (unmount (builders b)) (detachRaw (builders b)) s2)"

text \<open>
  The templates of \<^verbatim>\<open>render\<close>, each with the values it interpolates as arguments.
  The literal text is that of Block.ts. What \<^verbatim>\<open>deindent\<close> makes of a template is
  the list of its lines, with the text of an interpolated builder in its place.
\<close>

definition key_property :: "string \<Rightarrow> fragment" where
  "key_property localKey = [''key: '' @ localKey @ '','']"

definition first_property :: "string \<Rightarrow> fragment" where
  "first_property node = [''first: '' @ node @ '','']"

definition mount_noop :: "string \<Rightarrow> fragment" where
  "mount_noop noop = [''mount: '' @ noop @ '','']"

definition mount_function :: "string \<Rightarrow> fragment \<Rightarrow> fragment" where
  "mount_function tgt body =
     [''mount: function ( '' @ tgt @ '', anchor ) {'']
     @ body
     @ [''},'']"

definition update_noop :: "string \<Rightarrow> fragment" where
  "update_noop noop = [''update: '' @ noop @ '','']"

definition update_function :: "string list \<Rightarrow> fragment \<Rightarrow> fragment" where
  "update_function ps body =
     [''update: function ( changed, '' @ join '', '' ps @ '' ) {'']
     @ body
     @ [''},'']"

text \<open>
  Modelled from the spec: \<^verbatim>\<open>deindent\<close> on an interpolation \<^verbatim>\<open>${hasOutros && ...}\<close>,
  missing from \<^verbatim>\<open>src/\<close>. The value is a line or \<^verbatim>\<open>false\<close>; spec 4.5 has the opposite
  flag cleared only if the other phase has fragments, so \<^verbatim>\<open>false\<close>, here \<open>None\<close>,
  leaves no line.
\<close>

definition optional_line :: "string option \<Rightarrow> fragment" where
  "optional_line v = (case v of None \<Rightarrow> [] | Some line \<Rightarrow> [line])"

definition intro_guarded :: "string \<Rightarrow> string \<Rightarrow> string option \<Rightarrow> fragment \<Rightarrow> fragment" where
  "intro_guarded tgt introing clear body =
     [''intro: function ( '' @ tgt @ '', anchor ) {'',
      ''if ( '' @ introing @ '' ) return;'',
      introing @ '' = true;'']
     @ optional_line clear
     @ body
     @ [''this.mount( '' @ tgt @ '', anchor );'',
        ''},'']"

definition intro_plain :: "string \<Rightarrow> fragment" where
  "intro_plain tgt =
     [''intro: function ( '' @ tgt @ '', anchor ) {'',
      ''this.mount( '' @ tgt @ '', anchor );'',
      ''},'']"

definition outro_guarded ::
  "string \<Rightarrow> string \<Rightarrow> string option \<Rightarrow> string \<Rightarrow> nat \<Rightarrow> fragment \<Rightarrow> fragment" where
  "outro_guarded callback outroing clear counter n body =
     [''outro: function ( '' @ callback @ '' ) {'',
      ''if ( '' @ outroing @ '' ) return;'',
      outroing @ '' = true;'']
     @ optional_line clear
     @ [''var '' @ counter @ '' = '' @ number n @ '';'']
     @ body
     @ [''},'']"

definition outro_plain :: fragment where
  "outro_plain =
     [''outro: function ( outrocallback ) {'',
      ''outrocallback();'',
      ''},'']"

definition unmount_noop :: "string \<Rightarrow> fragment" where
  "unmount_noop noop = [''unmount: '' @ noop @ '','']"

definition unmount_function :: "fragment \<Rightarrow> fragment" where
  "unmount_function body =
     [''unmount: function () {'']
     @ body
     @ [''},'']"

definition destroy_noop :: "string \<Rightarrow> fragment" where
  "destroy_noop noop = [''destroy: '' @ noop]"

definition destroy_function :: "fragment \<Rightarrow> fragment" where
  "destroy_function body =
     [''destroy: function () {'']
     @ body
     @ [''}'']"

definition block_function ::
  "string \<Rightarrow> string list \<Rightarrow> string \<Rightarrow> string \<Rightarrow> fragment \<Rightarrow> fragment \<Rightarrow> fragment" where
  "block_function nm ps handle keyparam body properties =
     [''function '' @ nm @ '' ( '' @ join '', '' ps @ '', '' @ handle @ keyparam @ '' ) {'']
     @ body
     @ [''return {'']
     @ properties
     @ [''};'',
        ''}'']"

text \<open>
  Lines 231 to 263: the local builder \<^verbatim>\<open>properties\<close> up to the update property.
  \<^verbatim>\<open>this.params.join\<close> throws when there are no params.
\<close>

definition render_head :: "Block \<Rightarrow> store \<Rightarrow> (error + string option \<times> CodeBuilder) \<times> store" where
  "render_head b s =
     (let p0 = [];
          (localKey, p1, s1) =
            (if truthy (key b)
             then (let (k, s1) = uniqueName (Block.generator b) (getUniqueName b) ''key'' s
                   in (Some k, cb_addBlock (key_property k) p0, s1))
             else (None, p0, s));
          p2 = (if truthy (first b) then cb_addBlock (first_property (tpl (first b))) p1 else p1);
          p3 = (if isEmpty (cbs s1 (mount (builders b)))
                then cb_addBlock (mount_noop (helper (Block.generator b) ''noop'')) p2
                else cb_addBlock
                       (mount_function (target b) (toString (cbs s1 (mount (builders b))))) p2)
      in if hasUpdateMethod b
         then (if isEmpty (cbs s1 (update (builders b)))
               then (Inr (localKey,
                          cb_addBlock (update_noop (helper (Block.generator b) ''noop'')) p3), s1)
               else (case Block.params b of
                       None \<Rightarrow> (Inl TypeError, s1)
                     | Some ps \<Rightarrow>
                         (Inr (localKey,
                               cb_addBlock
                                 (update_function ps (toString (cbs s1 (update (builders b))))) p3),
                          s1)))
         else (Inr (localKey, p3), s1))"

text \<open>
  Lines 265 to 327: the intro, outro, unmount and destroy properties. The two
  calls of \<^verbatim>\<open>alias\<close> happen in the order of the template.
\<close>

definition render_tail ::
  "Block \<Rightarrow> bool \<Rightarrow> bool \<Rightarrow> string option \<Rightarrow> string option \<Rightarrow> CodeBuilder \<Rightarrow> store
     \<Rightarrow> CodeBuilder \<times> store" where
  "render_tail b hasIntros hasOutros introing outroing p3 s =
     (let p4 = (if hasIntroMethod b
                then (if hasIntros
                      then cb_addBlock
                             (intro_guarded (target b) (tpl introing)
                                (if hasOutros then Some (tpl outroing @ '' = false;'') else None)
                                (toString (cbs s (intro (builders b))))) p3
                      else cb_addBlock (intro_plain (target b)) p3)
                else p3);
          (p5, s2) =
            (if hasOutroMethod b
             then (if hasOutros
                   then (let (outrocallback, s1) = alias' b ''outrocallback'' s;
                             (counter, s2) = alias' b ''outros'' s1
                         in (cb_addBlock
                               (outro_guarded (tpl outrocallback) (tpl outroing)
                                  (if hasIntros then Some (tpl introing @ '' = false;'') else None)
                                  (tpl counter) (outros b)
                                  (toString (cbs s2 (outro (builders b))))) p4, s2))
                   else (cb_addBlock outro_plain p4, s))
             else (p4, s));
          p6 = (if isEmpty (cbs s2 (unmount (builders b)))
                then cb_addBlock (unmount_noop (helper (Block.generator b) ''noop'')) p5
                else cb_addBlock (unmount_function (toString (cbs s2 (unmount (builders b))))) p5);
          p7 = (if isEmpty (cbs s2 (destroy (builders b)))
                then cb_addBlock (destroy_noop (helper (Block.generator b) ''noop'')) p6
                else cb_addBlock (destroy_function (toString (cbs s2 (destroy (builders b))))) p6)
      in (p7, s2))"

text \<open>
  Lines 199 to 327 as a whole: the locals \<^verbatim>\<open>localKey\<close> and \<^verbatim>\<open>properties\<close> as the
  return statement finds them.
\<close>

definition render_properties :: "Block \<Rightarrow> store \<Rightarrow> (error + string option \<times> CodeBuilder) \<times> store" where
  "render_properties b s0 =
     (let hasIntros = \<not> isEmpty (cbs s0 (intro (builders b)))
      in case flag_variable b hasIntros ''introing'' s0 of
           (Inl e, s1) \<Rightarrow> (Inl e, s1)
         | (Inr introing, s1) \<Rightarrow>
             (let hasOutros = \<not> isEmpty (cbs s1 (outro (builders b)))
              in case flag_variable b hasOutros ''outroing'' s1 of
                   (Inl e, s2) \<Rightarrow> (Inl e, s2)
                 | (Inr outroing, s2) \<Rightarrow>
                     (case render_head b (render_phases b s2) of
                        (Inl e, s3) \<Rightarrow> (Inl e, s3)
                      | (Inr (localKey, p3), s3) \<Rightarrow>
                          (let (properties, s4) =
                                 render_tail b hasIntros hasOutros introing outroing p3 s3
                           in (Inr (localKey, properties), s4)))))"

text \<open>Lines 329 to 340: the text that \<^verbatim>\<open>render\<close> returns.\<close>

definition render :: "Block \<Rightarrow> store \<Rightarrow> (error + fragment) \<times> store" where
  "render b s0 =
     (case render_properties b s0 of
        (Inl e, s1) \<Rightarrow> (Inl e, s1)
      | (Inr (localKey, properties), s1) \<Rightarrow>
          (case Block.params b of
             None \<Rightarrow> (Inl TypeError, s1)
           | Some ps \<Rightarrow>
               (Inr (block_function (Block.name b) ps (component b)
                       (if truthy (key b) then '', '' @ tpl localKey else [])
                       (toString (cbs s1 (create (builders b))))
                       (toString properties)), s1)))"

subsection \<open>Observations\<close>

text \<open>
  Every fragment that \<^verbatim>\<open>render\<close> adds to \<^verbatim>\<open>properties\<close> is one property of the
  returned object and begins with the property's name and a colon. \<open>property\<close>
  selects the fragments of a name.
\<close>

definition prop_name :: "fragment \<Rightarrow> string" where
  "prop_name f = (case f of [] \<Rightarrow> [] | l # ls \<Rightarrow> takeWhile (\<lambda>c. c \<noteq> CHR '':'') l)"

definition property :: "string \<Rightarrow> CodeBuilder \<Rightarrow> fragment list" where
  "property nm props = filter (\<lambda>f. prop_name f = nm) props"

text \<open>The eight builders of a block, and the objects a block creates for itself.\<close>

definition phases :: "Block \<Rightarrow> ref list" where
  "phases b =
     [create (builders b), mount (builders b), intro (builders b), update (builders b),
      outro (builders b), unmount (builders b), detachRaw (builders b), destroy (builders b)]"

definition owned :: "Block \<Rightarrow> ref list" where
  "owned b = phases b @ [Block.dependencies b, variables b, aliases b]"

text \<open>What can be seen of a store through a block: the contents of its objects.\<close>

definition view ::
  "Block \<Rightarrow> store \<Rightarrow> CodeBuilder list \<times> string set \<times> (string \<times> string option) list
     \<times> (string \<times> string option) list" where
  "view b s =
     (map (cbs s) (phases b), sets s (Block.dependencies b), maps s (variables b), maps s (aliases b))"

subsection \<open>A generator, a store and a block to compute with\<close>

definition example_generator :: DomGenerator where
  "example_generator =
     \<lparr> helper = (\<lambda>h. h),
       getUniqueNameMaker = (\<lambda>taken wish. if wish \<in> set taken then wish @ ''_1'' else wish) \<rparr>"

definition empty_store :: store where
  "empty_store =
     \<lparr> cbs = (\<lambda>r. []), sets = (\<lambda>r. {}), maps = (\<lambda>r. []), used = (\<lambda>r. []), fresh = 0 \<rparr>"

definition example_options :: BlockOptions where
  "example_options =
     \<lparr> BlockOptions.name = ''create_main_fragment'',
       BlockOptions.generator = Some example_generator,
       BlockOptions.expression = None,
       BlockOptions.context' = None,
       BlockOptions.key = None,
       BlockOptions.contexts = None,
       BlockOptions.indexes = None,
       BlockOptions.contextDependencies = None,
       BlockOptions.params = Some [''state''],
       BlockOptions.indexNames = None,
       BlockOptions.listNames = None,
       BlockOptions.indexName = Some ''i'',
       BlockOptions.listName = Some ''each_block_value'',
       BlockOptions.dependencies = None \<rparr>"

text \<open>The block and the store that \<open>new_Block example_options empty_store\<close> returns.\<close>

definition example_block :: Block where
  "example_block =
     \<lparr> Block.generator = example_generator,
       Block.name = ''create_main_fragment'',
       Block.expression = None,
       Block.context' = None,
       Block.key = None,
       first = None,
       Block.contexts = None,
       Block.indexes = None,
       Block.contextDependencies = None,
       Block.dependencies = 0,
       Block.params = Some [''state''],
       Block.indexNames = None,
       Block.listNames = None,
       Block.indexName = None,
       Block.listName = Some ''each_block_value'',
       builders = \<lparr> create = 1, mount = 2, intro = 3, update = 4, outro = 5, unmount = 6,
         detachRaw = 7, destroy = 8 \<rparr>,
       hasIntroMethod = False,
       hasOutroMethod = False,
       outros = 0,
       aliases = 9,
       variables = 10,
       getUniqueName = 11,
       component = ''component'',
       target = ''target'',
       hasUpdateMethod = False,
       autofocus = None \<rparr>"

definition example_store :: store where
  "example_store =
     \<lparr> cbs = (\<lambda>r. []), sets = (\<lambda>r. {}), maps = (\<lambda>r. []),
       used = (\<lambda>r. [])(11 := [''target'', ''component'', ''state'']), fresh = 12 \<rparr>"

text \<open>The example store with one fragment in the detach-raw builder.\<close>

definition raw_store :: store where
  "raw_store = addLine (detachRaw (builders example_block)) ''detachNode( raw_before );'' example_store"

text \<open>The example block as it is without params in the options.\<close>

definition bare_block :: Block where
  "bare_block = example_block\<lparr>Block.params := None\<rparr>"

text \<open>
  The names that \<^verbatim>\<open>render\<close> gets from the allocator for its two flags (lines 202 and
  209): the second is asked for after the first has been handed out.
\<close>

definition introing_name :: "Block \<Rightarrow> store \<Rightarrow> string" where
  "introing_name b s =
     getUniqueNameMaker (Block.generator b) (used s (getUniqueName b)) ''introing''"

definition outroing_name :: "Block \<Rightarrow> store \<Rightarrow> string" where
  "outroing_name b s =
     getUniqueNameMaker (Block.generator b)
       (if isEmpty (cbs s (intro (builders b))) then used s (getUniqueName b)
        else introing_name b s # used s (getUniqueName b))
       ''outroing''"

text \<open>
  A block with both transition methods, and a store in which it has a top-level
  node, one fragment in each of intro, outro and detach-raw, and a declared variable.
\<close>

definition transition_block :: Block where
  "transition_block = example_block\<lparr>hasIntroMethod := True, hasOutroMethod := True, outros := 2\<rparr>"

definition transition_store :: store where
  "transition_store =
     addLine (intro (builders example_block)) ''div_transition.run( true );''
       (addLine (outro (builders example_block)) ''div_transition.run( false );''
          (addLine (detachRaw (builders example_block)) ''detachBetween( raw_before, raw_after );''
             (addElement example_block ''div'' ''createElement( tag )'' None False example_store)))"

text \<open>Options for a child of the example block: a name of its own and a context.\<close>

definition child_options :: BlockOptions where
  "child_options =
     \<lparr> BlockOptions.name = ''create_if_block'',
       BlockOptions.generator = None,
       BlockOptions.expression = None,
       BlockOptions.context' = Some ''item'',
       BlockOptions.key = None,
       BlockOptions.contexts = None,
       BlockOptions.indexes = None,
       BlockOptions.contextDependencies = None,
       BlockOptions.params = None,
       BlockOptions.indexNames = None,
       BlockOptions.listNames = None,
       BlockOptions.indexName = None,
       BlockOptions.listName = None,
       BlockOptions.dependencies = Some 0 \<rparr>"

section \<open>Proofs\<close>

subsection \<open>What each operation leaves alone\<close>

lemma builder_ops_frame [simp]:
  "sets (addLine r l s) = sets s" "maps (addLine r l s) = maps s"
  "used (addLine r l s) = used s" "fresh (addLine r l s) = fresh s"
  "sets (addBlockAtStart r f s) = sets s" "maps (addBlockAtStart r f s) = maps s"
  "used (addBlockAtStart r f s) = used s" "fresh (addBlockAtStart r f s) = fresh s"
  "sets (spliceAtStart r r' s) = sets s" "maps (spliceAtStart r r' s) = maps s"
  "used (spliceAtStart r r' s) = used s" "fresh (spliceAtStart r r' s) = fresh s"
  by (simp_all add: addLine_def addBlockAtStart_def spliceAtStart_def)

lemma builder_ops_cbs:
  "cbs (addLine r l s) = (cbs s)(r := cbs s r @ [[l]])"
  "cbs (addBlockAtStart r f s) = (cbs s)(r := f # cbs s r)"
  "cbs (spliceAtStart r r' s) = (cbs s)(r := cbs s r' @ cbs s r)"
  by (simp_all add: addLine_def addBlockAtStart_def spliceAtStart_def
        cb_addLine_def cb_addBlockAtStart_def cb_spliceAtStart_def)

lemma uniqueName_frame [simp]:
  "cbs (snd (uniqueName g r w s)) = cbs s" "sets (snd (uniqueName g r w s)) = sets s"
  "maps (snd (uniqueName g r w s)) = maps s" "fresh (snd (uniqueName g r w s)) = fresh s"
  "fst (uniqueName g r w s) = getUniqueNameMaker g (used s r) w"
  "used (snd (uniqueName g r w s)) = (used s)(r := getUniqueNameMaker g (used s r) w # used s r)"
  by (simp_all add: uniqueName_def Let_def)

lemma mount_frame [simp]:
  "sets (mount' b n p s) = sets s" "maps (mount' b n p s) = maps s"
  "used (mount' b n p s) = used s" "fresh (mount' b n p s) = fresh s"
  by (simp_all add: mount'_def)

lemma addElement_frame [simp]:
  "sets (addElement b n e p i s) = sets s" "maps (addElement b n e p i s) = maps s"
  "used (addElement b n e p i s) = used s" "fresh (addElement b n e p i s) = fresh s"
  by (simp_all add: addElement_def Let_def)

lemma addVariable_frame [simp]:
  "cbs (snd (addVariable b n x s)) = cbs s" "sets (snd (addVariable b n x s)) = sets s"
  "used (snd (addVariable b n x s)) = used s" "fresh (snd (addVariable b n x s)) = fresh s"
  by (simp_all add: addVariable_def)

lemma addVariable_maps:
  "r \<noteq> variables b \<Longrightarrow> maps (snd (addVariable b n x s)) r = maps s r"
  by (simp add: addVariable_def)

lemma alias_frame [simp]:
  "cbs (snd (alias' b n s)) = cbs s" "sets (snd (alias' b n s)) = sets s"
  "fresh (snd (alias' b n s)) = fresh s"
  by (simp_all add: alias'_def Let_def split_def)

lemma alias_maps:
  "r \<noteq> aliases b \<Longrightarrow> maps (snd (alias' b n s)) r = maps s r"
  by (simp add: alias'_def Let_def split_def)

lemma flag_variable_unfold:
  "flag_variable b p w s =
     (if p
      then (case fst (addVariable b (getUniqueNameMaker (Block.generator b) (used s (getUniqueName b)) w)
                        None (snd (uniqueName (Block.generator b) (getUniqueName b) w s))) of
              Inl e \<Rightarrow> Inl e
            | Inr u \<Rightarrow> Inr (Some (getUniqueNameMaker (Block.generator b) (used s (getUniqueName b)) w)),
            snd (addVariable b (getUniqueNameMaker (Block.generator b) (used s (getUniqueName b)) w)
                   None (snd (uniqueName (Block.generator b) (getUniqueName b) w s))))
      else (Inr None, s))"
  by (simp add: flag_variable_def split_def split: prod.splits sum.splits)

lemma flag_variable_frame [simp]:
  "cbs (snd (flag_variable b p w s)) = cbs s" "sets (snd (flag_variable b p w s)) = sets s"
  "fresh (snd (flag_variable b p w s)) = fresh s"
  by (simp_all add: flag_variable_unfold)

lemma flag_variable_maps:
  "r \<noteq> variables b \<Longrightarrow> maps (snd (flag_variable b p w s)) r = maps s r"
  by (simp add: flag_variable_unfold addVariable_maps)

lemma render_phases_frame [simp]:
  "sets (render_phases b s) = sets s" "maps (render_phases b s) = maps s"
  "used (render_phases b s) = used s" "fresh (render_phases b s) = fresh s"
  by (simp_all add: render_phases_def Let_def)

lemma render_phases_cbs:
  "r \<noteq> create (builders b) \<Longrightarrow> r \<noteq> unmount (builders b) \<Longrightarrow> cbs (render_phases b s) r = cbs s r"
  by (simp add: render_phases_def Let_def builder_ops_cbs)

lemma render_head_frame [simp]:
  "cbs (snd (render_head b s)) = cbs s" "sets (snd (render_head b s)) = sets s"
  "maps (snd (render_head b s)) = maps s" "fresh (snd (render_head b s)) = fresh s"
  by (simp_all add: render_head_def Let_def split_def split: option.splits)

lemma render_tail_frame [simp]:
  "cbs (snd (render_tail b hi ho i0 o0 p s)) = cbs s" "sets (snd (render_tail b hi ho i0 o0 p s)) = sets s"
  "fresh (snd (render_tail b hi ho i0 o0 p s)) = fresh s"
  by (simp_all add: render_tail_def Let_def split_def)

lemma render_tail_maps:
  "r \<noteq> aliases b \<Longrightarrow> maps (snd (render_tail b hi ho i0 o0 p s)) r = maps s r"
  by (simp add: render_tail_def Let_def split_def alias_maps)

lemma render_properties_unfold:
  "render_properties b s =
     (let hasIntros = \<not> isEmpty (cbs s (intro (builders b)));
          r1 = flag_variable b hasIntros ''introing'' s;
          hasOutros = \<not> isEmpty (cbs s (outro (builders b)));
          r2 = flag_variable b hasOutros ''outroing'' (snd r1);
          r3 = render_head b (render_phases b (snd r2))
      in case fst r1 of
           Inl e \<Rightarrow> (Inl e, snd r1)
         | Inr introing \<Rightarrow>
             (case fst r2 of
                Inl e \<Rightarrow> (Inl e, snd r2)
              | Inr outroing \<Rightarrow>
                  (case fst r3 of
                     Inl e \<Rightarrow> (Inl e, snd r3)
                   | Inr kp \<Rightarrow>
                       (Inr (fst kp,
                             fst (render_tail b hasIntros hasOutros introing outroing (snd kp) (snd r3))),
                        snd (render_tail b hasIntros hasOutros introing outroing (snd kp) (snd r3))))))"
  by (simp add: render_properties_def Let_def split_def split: prod.splits sum.splits)

lemma render_properties_frame [simp]:
  "sets (snd (render_properties b s)) = sets s"
  "fresh (snd (render_properties b s)) = fresh s"
  by (simp_all add: render_properties_unfold Let_def split: sum.splits)

lemma render_properties_cbs:
  "r \<noteq> create (builders b) \<Longrightarrow> r \<noteq> unmount (builders b) \<Longrightarrow>
     cbs (snd (render_properties b s)) r = cbs s r"
  by (simp add: render_properties_unfold Let_def render_phases_cbs split: sum.splits)

lemma render_properties_maps:
  "r \<noteq> variables b \<Longrightarrow> r \<noteq> aliases b \<Longrightarrow>
     maps (snd (render_properties b s)) r = maps s r"
  by (simp add: render_properties_unfold Let_def render_tail_maps flag_variable_maps split: sum.splits)

lemma render_store [simp]: "snd (render b s) = snd (render_properties b s)"
  by (simp add: render_def split: prod.splits sum.splits option.splits)

subsection \<open>The constructor\<close>

lemma new_Block_None:
  "BlockOptions.generator options = None \<Longrightarrow> fst (new_Block options s) = Inl TypeError"
  by (simp add: new_Block_def split_def Let_def)

lemma new_Block_Some:
  assumes "BlockOptions.generator options = Some g"
  shows "new_Block options s =
    (let r = fresh s;
         ps = (case BlockOptions.params options of None \<Rightarrow> [] | Some ps \<Rightarrow> ps);
         c = getUniqueNameMaker g ps ''component'';
         t = getUniqueNameMaker g (c # ps) ''target''
     in (Inr \<lparr> Block.generator = g,
               Block.name = BlockOptions.name options,
               Block.expression = BlockOptions.expression options,
               Block.context' = BlockOptions.context' options,
               Block.key = BlockOptions.key options,
               first = None,
               Block.contexts = BlockOptions.contexts options,
               Block.indexes = BlockOptions.indexes options,
               Block.contextDependencies = BlockOptions.contextDependencies options,
               Block.dependencies = r,
               Block.params = BlockOptions.params options,
               Block.indexNames = BlockOptions.indexNames options,
               Block.listNames = BlockOptions.listNames options,
               Block.indexName = None,
               Block.listName = BlockOptions.listName options,
               builders = \<lparr> create = r + 1, mount = r + 2, intro = r + 3,
                 update = r + 4, outro = r + 5, unmount = r + 6,
                 detachRaw = r + 7, destroy = r + 8 \<rparr>,
               hasIntroMethod = False,
               hasOutroMethod = False,
               outros = 0,
               aliases = r + 9,
               variables = r + 10,
               getUniqueName = r + 11,
               component = c,
               target = t,
               hasUpdateMethod = False,
               autofocus = None \<rparr>, allocated s (t # c # ps)))"
  using assms
  by (simp add: new_Block_def new_Set_def new_CodeBuilder_def new_Map_def uniqueName_def
        allocated_def Let_def fun_eq_iff)

text \<open>What a successful construction says about the block and the store.\<close>

lemma new_Block_Inr:
  assumes "fst (new_Block options s) = Inr b"
  shows "Block.indexName b = None"
    and "Block.listName b = BlockOptions.listName options"
    and "Block.dependencies b = fresh s"
    and "phases b = [fresh s + 1, fresh s + 2, fresh s + 3, fresh s + 4, fresh s + 5, fresh s + 6,
           fresh s + 7, fresh s + 8]"
    and "aliases b = fresh s + 9"
    and "variables b = fresh s + 10"
    and "getUniqueName b = fresh s + 11"
    and "\<exists>names. snd (new_Block options s) = allocated s names"
proof -
  obtain g where g: "BlockOptions.generator options = Some g"
    using assms new_Block_None [of options s] by (cases "BlockOptions.generator options") auto
  note eq = new_Block_Some [OF g, of s]
  show "Block.indexName b = None" "Block.listName b = BlockOptions.listName options"
    "Block.dependencies b = fresh s" "aliases b = fresh s + 9" "variables b = fresh s + 10"
    "getUniqueName b = fresh s + 11"
    using assms eq by (auto simp: Let_def)
  show "phases b = [fresh s + 1, fresh s + 2, fresh s + 3, fresh s + 4, fresh s + 5, fresh s + 6,
           fresh s + 7, fresh s + 8]"
    using assms eq by (auto simp: Let_def phases_def)
  show "\<exists>names. snd (new_Block options s) = allocated s names"
    using eq by (auto simp: Let_def)
qed

text \<open>
  The claims about \<^verbatim>\<open>render\<close> and \<^verbatim>\<open>addElement\<close> are stated for blocks whose eight
  builders are eight objects. Every block that the constructor returns is one.
\<close>

lemma new_Block_distinct:
  assumes "fst (new_Block options s) = Inr b"
  shows "distinct (phases b)" and "distinct (owned b)"
    and "\<forall>r \<in> set (owned b). r < fresh (snd (new_Block options s))"
proof -
  obtain names where st: "snd (new_Block options s) = allocated s names"
    using new_Block_Inr(8) [OF assms] by blast
  show "distinct (phases b)"
    by (simp add: new_Block_Inr(4) [OF assms])
  show "distinct (owned b)"
    by (simp add: owned_def new_Block_Inr(3-6) [OF assms])
  show "\<forall>r \<in> set (owned b). r < fresh (snd (new_Block options s))"
    by (simp add: owned_def new_Block_Inr(3-6) [OF assms] st allocated_def)
qed

lemma new_Block_example:
  "new_Block example_options empty_store = (Inr example_block, example_store)"
proof -
  have "BlockOptions.generator example_options = Some example_generator"
    by (simp add: example_options_def)
  from new_Block_Some [OF this, of empty_store] show ?thesis
    by (simp add: example_options_def empty_store_def example_block_def example_store_def
        example_generator_def allocated_def Let_def fun_eq_iff)
qed

subsection \<open>Maps\<close>

lemma update_twice: "AList.update k v (AList.update k v m) = AList.update k v m"
  by (induction m) auto

lemma get_update: "get (AList.update k v m) k' = (if k' = k then v else get m k')"
  by (simp add: get_def update_conv')

lemma has_update: "has (AList.update k v m) k' = (k' = k \<or> has m k')"
  by (simp add: has_def update_conv')

lemma addDependencies_sets:
  "sets (addDependencies b deps s)
     = (sets s)(Block.dependencies b := sets s (Block.dependencies b) \<union> set deps)"
  unfolding addDependencies_def
  by (induction deps arbitrary: s) (auto simp: fun_eq_iff)

lemma fold_addDependencies_sets:
  "sets (fold (addDependencies b) calls s)
     = (sets s)(Block.dependencies b := sets s (Block.dependencies b) \<union> set (concat calls))"
  by (induction calls arbitrary: s) (auto simp: addDependencies_sets fun_eq_iff)

lemma allocated_simps [simp]:
  "fresh (allocated s names) = fresh s + 12"
  "sets (allocated s names) = (sets s)(fresh s := {})"
  by (simp_all add: allocated_def)

lemma conflict_message_inj: "conflict_message n = conflict_message n' \<Longrightarrow> n = n'"
  by (simp add: conflict_message_def)

subsection \<open>The course of render\<close>

lemma flag_variable_Inr:
  "fst (flag_variable b p w s) = Inr v \<Longrightarrow>
     v = (if p then Some (getUniqueNameMaker (Block.generator b) (used s (getUniqueName b)) w)
          else None)"
  by (auto simp: flag_variable_unfold split: if_splits sum.splits)

lemma flag_variable_used:
  "used (snd (flag_variable b p w s))
     = (if p
        then (used s)(getUniqueName b :=
                getUniqueNameMaker (Block.generator b) (used s (getUniqueName b)) w
                  # used s (getUniqueName b))
        else used s)"
  by (simp add: flag_variable_unfold)

lemma render_properties_Inr:
  assumes "fst (render_properties b s) = Inr (k, props)"
  shows "\<exists>p3.
     fst (render_head b (render_phases b
            (snd (flag_variable b (\<not> isEmpty (cbs s (outro (builders b)))) ''outroing''
                   (snd (flag_variable b (\<not> isEmpty (cbs s (intro (builders b)))) ''introing'' s))))))
       = Inr (k, p3) \<and>
     props = fst (render_tail b
               (\<not> isEmpty (cbs s (intro (builders b))))
               (\<not> isEmpty (cbs s (outro (builders b))))
               (if isEmpty (cbs s (intro (builders b))) then None else Some (introing_name b s))
               (if isEmpty (cbs s (outro (builders b))) then None else Some (outroing_name b s))
               p3
               (snd (render_head b (render_phases b
                  (snd (flag_variable b (\<not> isEmpty (cbs s (outro (builders b)))) ''outroing''
                     (snd (flag_variable b (\<not> isEmpty (cbs s (intro (builders b)))) ''introing'' s))))))))"
proof -
  let ?hi = "\<not> isEmpty (cbs s (intro (builders b)))"
  let ?ho = "\<not> isEmpty (cbs s (outro (builders b)))"
  let ?r1 = "flag_variable b ?hi ''introing'' s"
  let ?r2 = "flag_variable b ?ho ''outroing'' (snd ?r1)"
  let ?r3 = "render_head b (render_phases b (snd ?r2))"
  from assms obtain i0 where i0: "fst ?r1 = Inr i0"
    by (cases "fst ?r1") (simp_all add: render_properties_unfold Let_def)
  from assms i0 obtain o0 where o0: "fst ?r2 = Inr o0"
    by (cases "fst ?r2") (simp_all add: render_properties_unfold Let_def)
  from assms i0 o0 obtain kp where kp: "fst ?r3 = Inr kp"
    by (cases "fst ?r3") (simp_all add: render_properties_unfold Let_def)
  have i0': "i0 = (if isEmpty (cbs s (intro (builders b))) then None else Some (introing_name b s))"
    using flag_variable_Inr [OF i0] by (simp add: introing_name_def)
  have o0': "o0 = (if isEmpty (cbs s (outro (builders b))) then None else Some (outroing_name b s))"
    using flag_variable_Inr [OF o0]
    by (simp add: outroing_name_def introing_name_def flag_variable_used)
  from assms i0 o0 kp have "k = fst kp"
    and "props = fst (render_tail b ?hi ?ho i0 o0 (snd kp) (snd ?r3))"
    by (simp_all add: render_properties_unfold Let_def)
  with kp i0' o0' show ?thesis
    by (cases kp) auto
qed

lemma render_Inr:
  assumes "fst (render b s) = Inr out"
  shows "\<exists>k props ps.
     fst (render_properties b s) = Inr (k, props) \<and> Block.params b = Some ps \<and>
     out = block_function (Block.name b) ps (component b)
             (if truthy (key b) then '', '' @ tpl k else [])
             (toString (cbs (snd (render b s)) (create (builders b))))
             (toString props)"
  using assms
  by (auto simp: render_def split: prod.splits sum.splits option.splits)

subsection \<open>The properties by name\<close>

lemma prop_name_templates [simp]:
  "prop_name (key_property k) = ''key''"
  "prop_name (first_property f) = ''first''"
  "prop_name (mount_noop h) = ''mount''"
  "prop_name (mount_function t body) = ''mount''"
  "prop_name (update_noop h) = ''update''"
  "prop_name (update_function ps body) = ''update''"
  "prop_name (intro_guarded t i0 c body) = ''intro''"
  "prop_name (intro_plain t) = ''intro''"
  "prop_name (outro_guarded cb o0 c ctr n body) = ''outro''"
  "prop_name outro_plain = ''outro''"
  "prop_name (unmount_noop h) = ''unmount''"
  "prop_name (unmount_function body) = ''unmount''"
  "prop_name (destroy_noop h) = ''destroy''"
  "prop_name (destroy_function body) = ''destroy''"
  by (simp_all add: prop_name_def key_property_def first_property_def mount_noop_def
        mount_function_def update_noop_def update_function_def intro_guarded_def intro_plain_def
        outro_guarded_def outro_plain_def unmount_noop_def unmount_function_def
        destroy_noop_def destroy_function_def)

lemma property_append [simp]: "property nm (p @ q) = property nm p @ property nm q"
  by (simp add: property_def)

lemma property_Nil [simp]: "property nm [] = []"
  by (simp add: property_def)

lemma property_Cons [simp]:
  "property nm (f # fs) = (if prop_name f = nm then [f] else []) @ property nm fs"
  by (simp add: property_def)

text \<open>The two halves of \<^verbatim>\<open>properties\<close>, as lists of fragments.\<close>

lemma render_head_fst:
  assumes "fst (render_head b s) = Inr (k, p)"
  shows "p = (if truthy (key b)
              then [key_property (getUniqueNameMaker (Block.generator b) (used s (getUniqueName b)) ''key'')]
              else [])
           @ (if truthy (first b) then [first_property (tpl (first b))] else [])
           @ [if isEmpty (cbs s (mount (builders b)))
              then mount_noop (helper (Block.generator b) ''noop'')
              else mount_function (target b) (toString (cbs s (mount (builders b))))]
           @ (if hasUpdateMethod b
              then [if isEmpty (cbs s (update (builders b)))
                    then update_noop (helper (Block.generator b) ''noop'')
                    else update_function (case Block.params b of None \<Rightarrow> [] | Some ps \<Rightarrow> ps)
                           (toString (cbs s (update (builders b))))]
              else [])"
    and "k = (if truthy (key b)
              then Some (getUniqueNameMaker (Block.generator b) (used s (getUniqueName b)) ''key'')
              else None)"
  using assms
  by (auto simp: render_head_def Let_def split_def cb_addBlock_def split: if_splits option.splits)

lemma render_tail_fst:
  "fst (render_tail b hi ho i0 o0 p s)
     = p
       @ (if hasIntroMethod b
          then [if hi
                then intro_guarded (target b) (tpl i0)
                       (if ho then Some (tpl o0 @ '' = false;'') else None)
                       (toString (cbs s (intro (builders b))))
                else intro_plain (target b)]
          else [])
       @ (if hasOutroMethod b
          then [if ho
                then outro_guarded (tpl (fst (alias' b ''outrocallback'' s))) (tpl o0)
                       (if hi then Some (tpl i0 @ '' = false;'') else None)
                       (tpl (fst (alias' b ''outros'' (snd (alias' b ''outrocallback'' s)))))
                       (outros b)
                       (toString (cbs s (outro (builders b))))
                else outro_plain]
          else [])
       @ [if isEmpty (cbs s (unmount (builders b)))
          then unmount_noop (helper (Block.generator b) ''noop'')
          else unmount_function (toString (cbs s (unmount (builders b))))]
       @ [if isEmpty (cbs s (destroy (builders b)))
          then destroy_noop (helper (Block.generator b) ''noop'')
          else destroy_function (toString (cbs s (destroy (builders b))))]"
  by (simp add: render_tail_def cb_addBlock_def Let_def split_def)

lemma render_head_property:
  assumes "fst (render_head b s) = Inr (k, p)"
      and "nm \<noteq> ''key''" "nm \<noteq> ''first''" "nm \<noteq> ''mount''" "nm \<noteq> ''update''"
  shows "property nm p = []"
  using assms(2-) by (auto simp: render_head_fst(1) [OF assms(1)])

lemma render_phases_unmount:
  assumes "unmount (builders b) \<noteq> create (builders b)"
      and "detachRaw (builders b) \<noteq> create (builders b)"
  shows "cbs (render_phases b s) (unmount (builders b))
           = cbs s (detachRaw (builders b)) @ cbs s (unmount (builders b))"
  using assms by (simp add: render_phases_def Let_def builder_ops_cbs cb_spliceAtStart_def)

lemma flag_variable_bare:
  assumes "\<forall>k. get (maps s (variables b)) k = None"
  shows "\<exists>v. fst (flag_variable b p w s) = Inr v"
    and "\<forall>k. get (maps (snd (flag_variable b p w s)) (variables b)) k = None"
  using assms by (simp_all add: flag_variable_unfold addVariable_def get_update)

lemma render_head_Inr:
  assumes "\<not> hasUpdateMethod b \<or> isEmpty (cbs s (update (builders b))) \<or> Block.params b \<noteq> None"
  shows "\<exists>k p. fst (render_head b s) = Inr (k, p)"
  using assms by (auto simp: render_head_def Let_def split_def split: option.splits)

lemma render_unfold:
  "render b s =
     (case fst (render_properties b s) of
        Inl e \<Rightarrow> (Inl e, snd (render_properties b s))
      | Inr kp \<Rightarrow>
          (case Block.params b of
             None \<Rightarrow> (Inl TypeError, snd (render_properties b s))
           | Some ps \<Rightarrow>
               (Inr (block_function (Block.name b) ps (component b)
                       (if truthy (key b) then '', '' @ tpl (fst kp) else [])
                       (toString (cbs (snd (render_properties b s)) (create (builders b))))
                       (toString (snd kp))), snd (render_properties b s))))"
  by (simp add: render_def split: prod.splits sum.splits option.splits)

lemmas example_defs =
  example_block_def example_store_def example_generator_def raw_store_def

lemma render_properties_Inr_store:
  assumes "fst (render_properties b s) = Inr (k, props)"
  shows "\<exists>p3 i0 o0.
     snd (render_properties b s)
       = snd (render_tail b
               (\<not> isEmpty (cbs s (intro (builders b))))
               (\<not> isEmpty (cbs s (outro (builders b))))
               i0 o0 p3
               (snd (render_head b (render_phases b
                  (snd (flag_variable b (\<not> isEmpty (cbs s (outro (builders b)))) ''outroing''
                     (snd (flag_variable b (\<not> isEmpty (cbs s (intro (builders b)))) ''introing'' s))))))))"
  using assms
  by (auto simp: render_properties_unfold Let_def split: sum.splits)

lemma render_properties_unmount:
  assumes "fst (render_properties b s) = Inr (k, props)"
      and "unmount (builders b) \<noteq> create (builders b)"
      and "detachRaw (builders b) \<noteq> create (builders b)"
  shows "cbs (snd (render_properties b s)) (unmount (builders b))
           = cbs s (detachRaw (builders b)) @ cbs s (unmount (builders b))"
proof -
  from render_properties_Inr_store [OF assms(1)] obtain p3 i0 o0 where
    "snd (render_properties b s)
       = snd (render_tail b
               (\<not> isEmpty (cbs s (intro (builders b))))
               (\<not> isEmpty (cbs s (outro (builders b))))
               i0 o0 p3
               (snd (render_head b (render_phases b
                  (snd (flag_variable b (\<not> isEmpty (cbs s (outro (builders b)))) ''outroing''
                     (snd (flag_variable b (\<not> isEmpty (cbs s (intro (builders b)))) ''introing'' s))))))))"
    by blast
  then show ?thesis
    using assms(2,3) by (simp add: render_phases_unmount)
qed

text \<open>The builders that the later half of \<^verbatim>\<open>render\<close> reads, in terms of the first store.\<close>

lemma render_tail_reads:
  assumes "distinct (phases b)"
  shows "cbs (snd (render_head b (render_phases b
            (snd (flag_variable b ho ''outroing'' (snd (flag_variable b hi ''introing'' s)))))))
           (intro (builders b)) = cbs s (intro (builders b))"
    and "cbs (snd (render_head b (render_phases b
            (snd (flag_variable b ho ''outroing'' (snd (flag_variable b hi ''introing'' s)))))))
           (outro (builders b)) = cbs s (outro (builders b))"
    and "cbs (snd (render_head b (render_phases b
            (snd (flag_variable b ho ''outroing'' (snd (flag_variable b hi ''introing'' s)))))))
           (unmount (builders b)) = cbs s (detachRaw (builders b)) @ cbs s (unmount (builders b))"
proof -
  have apart: "intro (builders b) \<noteq> create (builders b)"
    "intro (builders b) \<noteq> unmount (builders b)"
    "outro (builders b) \<noteq> create (builders b)"
    "outro (builders b) \<noteq> unmount (builders b)"
    "unmount (builders b) \<noteq> create (builders b)"
    "detachRaw (builders b) \<noteq> create (builders b)"
    using assms by (auto simp: phases_def)
  let ?s2 = "snd (flag_variable b ho ''outroing'' (snd (flag_variable b hi ''introing'' s)))"
  show "cbs (snd (render_head b (render_phases b ?s2))) (intro (builders b)) = cbs s (intro (builders b))"
    using apart by (simp add: render_phases_cbs)
  show "cbs (snd (render_head b (render_phases b ?s2))) (outro (builders b)) = cbs s (outro (builders b))"
    using apart by (simp add: render_phases_cbs)
  show "cbs (snd (render_head b (render_phases b ?s2))) (unmount (builders b))
          = cbs s (detachRaw (builders b)) @ cbs s (unmount (builders b))"
    using apart by (simp add: render_phases_unmount)
qed





lemma render_transition:
  "fst (render transition_block transition_store)
     = Inr [''function create_main_fragment ( state, component ) {'',
            ''var introing, outroing;'',
            ''var div = createElement( tag );'',
            ''return {'',
            ''mount: function ( target, anchor ) {'',
            ''insertNode( div, target, anchor );'',
            ''},'',
            ''intro: function ( target, anchor ) {'',
            ''if ( introing ) return;'',
            ''introing = true;'',
            ''outroing = false;'',
            ''div_transition.run( true );'',
            ''this.mount( target, anchor );'',
            ''},'',
            ''outro: function ( outrocallback ) {'',
            ''if ( outroing ) return;'',
            ''outroing = true;'',
            ''introing = false;'',
            ''var outros = 2;'',
            ''div_transition.run( false );'',
            ''},'',
            ''unmount: function () {'',
            ''detachBetween( raw_before, raw_after );'',
            ''detachNode( div );'',
            ''},'',
            ''destroy: noop'',
            ''};'',
            ''}'']"
  by code_simp

lemma transition_facts:
  "distinct (phases transition_block)"
  "hasIntroMethod transition_block"
  "hasOutroMethod transition_block"
  "isEmpty (cbs transition_store (intro (builders transition_block))) = False"
  "isEmpty (cbs transition_store (outro (builders transition_block))) = False"
  "isEmpty (cbs transition_store (detachRaw (builders transition_block))
            @ cbs transition_store (unmount (builders transition_block))) = False"
  "target transition_block = ''target''"
  "introing_name transition_block transition_store = ''introing''"
  "outroing_name transition_block transition_store = ''outroing''"
  "toString (cbs transition_store (intro (builders transition_block)))
     = [''div_transition.run( true );'']"
  "toString (cbs transition_store (outro (builders transition_block)))
     = [''div_transition.run( false );'']"
  "cbs transition_store (detachRaw (builders transition_block))
     = [[''detachBetween( raw_before, raw_after );'']]"
  "cbs transition_store (unmount (builders transition_block)) = [[''detachNode( div );'']]"
  "get (maps (snd (render transition_block transition_store)) (aliases transition_block))
     ''outrocallback'' = Some ''outrocallback''"
  "get (maps (snd (render transition_block transition_store)) (aliases transition_block))
     ''outros'' = Some ''outros''"
  "number (outros transition_block) = ''2''"
  by code_simp+

subsection \<open>Blocks that share nothing\<close>

lemma allocated_heaps:
  "cbs (allocated s names) r = (if fresh s < r \<and> r < fresh s + 9 then [] else cbs s r)"
  "maps (allocated s names) r = (if r = fresh s + 9 \<or> r = fresh s + 10 then [] else maps s r)"
  by (simp_all add: allocated_def)

lemma child_Inr: "\<exists>c. fst (child b options s) = Inr c"
proof -
  obtain g where "BlockOptions.generator (assign b options) = Some g"
    by (cases "BlockOptions.generator options") (simp_all add: assign_def orElse_def)
  from new_Block_Some [OF this, of s] show ?thesis
    by (simp add: child_def Let_def)
qed

lemma addDependencies_frame [simp]:
  "cbs (addDependencies b deps s) = cbs s" "maps (addDependencies b deps s) = maps s"
  "used (addDependencies b deps s) = used s" "fresh (addDependencies b deps s) = fresh s"
  unfolding addDependencies_def
  by (induction deps arbitrary: s) simp_all

lemma mount_cbs:
  "r \<noteq> create (builders c) \<Longrightarrow> r \<noteq> mount (builders c) \<Longrightarrow> cbs (mount' c n p t) r = cbs t r"
  by (simp add: mount'_def builder_ops_cbs)

lemma addElement_cbs:
  "r \<noteq> create (builders c) \<Longrightarrow> r \<noteq> mount (builders c) \<Longrightarrow> r \<noteq> unmount (builders c) \<Longrightarrow>
     cbs (addElement c n e p i t) r = cbs t r"
  by (simp add: addElement_def mount'_def Let_def builder_ops_cbs)

lemma view_eqI:
  assumes "\<And>r. r \<in> set (phases b) \<Longrightarrow> cbs t' r = cbs t r"
      and "sets t' (Block.dependencies b) = sets t (Block.dependencies b)"
      and "maps t' (variables b) = maps t (variables b)"
      and "maps t' (aliases b) = maps t (aliases b)"
  shows "view b t' = view b t"
  using assms by (simp add: view_def)

text \<open>
  An operation on a block \<open>c\<close> changes nothing that can be seen through a block \<open>b\<close>
  which owns other objects.
\<close>

lemma apart_refs:
  assumes "set (owned c) \<inter> set (owned b) = {}"
  shows "r \<in> set (phases b) \<Longrightarrow> r \<notin> set (phases c)"
    and "Block.dependencies b \<noteq> Block.dependencies c"
    and "variables b \<noteq> variables c" "variables b \<noteq> aliases c"
    and "aliases b \<noteq> variables c" "aliases b \<noteq> aliases c"
  using assms by (auto simp: owned_def)

lemma phases_mem:
  "create (builders c) \<in> set (phases c)" "mount (builders c) \<in> set (phases c)"
  "unmount (builders c) \<in> set (phases c)"
  by (simp_all add: phases_def)

lemma view_frame:
  assumes "set (owned c) \<inter> set (owned b) = {}"
  shows "view b (addDependencies c deps t) = view b t"
    and "view b (addElement c n e p i t) = view b t"
    and "view b (mount' c n p t) = view b t"
    and "view b (snd (addVariable c n x t)) = view b t"
    and "view b (snd (alias' c n t)) = view b t"
    and "view b (snd (render c t)) = view b t"
proof -
  note ap = apart_refs [OF assms]
  have ne: "r \<noteq> create (builders c)" "r \<noteq> mount (builders c)" "r \<noteq> unmount (builders c)"
    if "r \<in> set (phases b)" for r
    using ap(1) [OF that] phases_mem [of c] by auto
  show "view b (addDependencies c deps t) = view b t"
    by (rule view_eqI) (simp_all add: addDependencies_sets ap)
  show "view b (addElement c n e p i t) = view b t"
    by (rule view_eqI) (simp_all add: addElement_cbs ne)
  show "view b (mount' c n p t) = view b t"
    by (rule view_eqI) (simp_all add: mount_cbs ne)
  show "view b (snd (addVariable c n x t)) = view b t"
    by (rule view_eqI) (simp_all add: addVariable_maps ap)
  show "view b (snd (alias' c n t)) = view b t"
    by (rule view_eqI) (simp_all add: alias_maps ap)
  show "view b (snd (render c t)) = view b t"
    by (rule view_eqI) (simp_all add: render_properties_cbs render_properties_maps ne ap)
qed

section \<open>The claims\<close>

subsection \<open>C1\<close>

text \<open>
  C1. On a name that is not registered yet, \<open>addVariable\<close> succeeds. Once it has
  registered a name with an initialiser (or with none, \<open>x = None\<close>), a second call
  with the same name and the same initialiser succeeds and leaves the store, and so
  the map of variables, as the first call left it. A call with the same name and
  any other initialiser, one of the two possibly absent, fails with the conflict
  error of line 148, and the store is the one before the failing call.
\<close>

theorem addVariable_twice:
  "(\<not> has (maps s (variables b)) n \<longrightarrow> fst (addVariable b n x s) = Inr ()) \<and>
   (fst (addVariable b n x s) = Inr () \<longrightarrow>
      addVariable b n x (snd (addVariable b n x s)) = (Inr (), snd (addVariable b n x s)) \<and>
      (\<forall>x'. x' \<noteq> x \<longrightarrow>
         addVariable b n x' (snd (addVariable b n x s))
           = (Inl (Error (conflict_message n)), snd (addVariable b n x s))))"
  by (auto simp: addVariable_def get_update has_update update_twice split: if_splits)

theorem addVariable_twice_witness:
  "\<not> has (maps example_store (variables example_block)) ''div'' \<and>
   fst (addVariable example_block ''div'' (Some ''createElement()'') example_store) = Inr () \<and>
   addVariable example_block ''div'' (Some ''createElement()'')
       (snd (addVariable example_block ''div'' (Some ''createElement()'') example_store))
     = (Inr (), snd (addVariable example_block ''div'' (Some ''createElement()'') example_store)) \<and>
   addVariable example_block ''div'' None
       (snd (addVariable example_block ''div'' (Some ''createElement()'') example_store))
     = (Inl (Error (conflict_message ''div'')),
        snd (addVariable example_block ''div'' (Some ''createElement()'') example_store))"
proof -
  have unregistered: "\<not> has (maps example_store (variables example_block)) ''div''"
    by (simp add: example_store_def has_def)
  from addVariable_twice [of example_store example_block "''div''" "Some ''createElement()''"]
  show ?thesis
    using unregistered by simp
qed

subsection \<open>C2\<close>

text \<open>
  C2. \<open>addElement\<close> on a block whose create, mount and unmount builders are three
  objects. A parent is absent when it fails the test of line 126 (\<^verbatim>\<open>undefined\<close>,
  \<^verbatim>\<open>null\<close> or the empty text). With \<open>needsIdentifier\<close> or no parent, create gains
  the declaration \<^verbatim>\<open>var name = expr;\<close> and the mount step: an \<^verbatim>\<open>appendNode\<close> line in
  create when there is a parent, an \<^verbatim>\<open>insertNode\<close> line in mount when there is
  none. Otherwise create gains the one inline \<^verbatim>\<open>appendNode( expr, parent )\<close> and
  mount gains nothing. Unmount gains the \<^verbatim>\<open>detachNode\<close> line exactly when there is no
  parent. Nothing else in the store changes.
\<close>

theorem addElement_emits:
  assumes "distinct [create (builders b), mount (builders b), unmount (builders b)]"
  shows "cbs (addElement b n e p i s) (create (builders b))
           = cbs s (create (builders b))
             @ (if i \<or> \<not> truthy p
                then [[''var '' @ n @ '' = '' @ e @ '';'']]
                     @ (if truthy p
                        then [[helper (Block.generator b) ''appendNode'' @ ''( '' @ n @ '', '' @ tpl p @ '' );'']]
                        else [])
                else [[helper (Block.generator b) ''appendNode'' @ ''( '' @ e @ '', '' @ tpl p @ '' );'']]) \<and>
         cbs (addElement b n e p i s) (mount (builders b))
           = cbs s (mount (builders b))
             @ (if truthy p then []
                else [[helper (Block.generator b) ''insertNode'' @ ''( '' @ n @ '', '' @ target b
                        @ '', anchor );'']]) \<and>
         cbs (addElement b n e p i s) (unmount (builders b))
           = cbs s (unmount (builders b))
             @ (if truthy p then []
                else [[helper (Block.generator b) ''detachNode'' @ ''( '' @ n @ '' );'']]) \<and>
         (\<forall>r. r \<noteq> create (builders b) \<and> r \<noteq> mount (builders b) \<and> r \<noteq> unmount (builders b)
              \<longrightarrow> cbs (addElement b n e p i s) r = cbs s r) \<and>
         sets (addElement b n e p i s) = sets s \<and> maps (addElement b n e p i s) = maps s \<and>
         used (addElement b n e p i s) = used s \<and> fresh (addElement b n e p i s) = fresh s"
  using assms
  by (simp add: addElement_def mount'_def Let_def builder_ops_cbs)

theorem addElement_emits_witness:
  "distinct [create (builders example_block), mount (builders example_block),
             unmount (builders example_block)] \<and>
   cbs (addElement example_block ''div'' ''createElement( tag )'' None False example_store)
       (create (builders example_block))
     = [[''var div = createElement( tag );'']] \<and>
   cbs (addElement example_block ''div'' ''createElement( tag )'' None False example_store)
       (mount (builders example_block))
     = [[''insertNode( div, target, anchor );'']] \<and>
   cbs (addElement example_block ''div'' ''createElement( tag )'' None False example_store)
       (unmount (builders example_block))
     = [[''detachNode( div );'']] \<and>
   cbs (addElement example_block ''p'' ''createElement( tag )'' (Some ''div'') False example_store)
       (create (builders example_block))
     = [[''appendNode( createElement( tag ), div );'']] \<and>
   cbs (addElement example_block ''p'' ''createElement( tag )'' (Some ''div'') False example_store)
       (mount (builders example_block))
     = [] \<and>
   cbs (addElement example_block ''p'' ''createElement( tag )'' (Some ''div'') False example_store)
       (unmount (builders example_block))
     = [] \<and>
   cbs (addElement example_block ''p'' ''createElement( tag )'' (Some ''div'') True example_store)
       (create (builders example_block))
     = [[''var p = createElement( tag );''], [''appendNode( p, div );'']]"
proof -
  have apart: "distinct [create (builders example_block), mount (builders example_block),
             unmount (builders example_block)]"
    by (simp add: example_block_def)
  from addElement_emits [OF apart, of "''div''" "''createElement( tag )''" None False example_store]
       addElement_emits [OF apart, of "''p''" "''createElement( tag )''" "Some ''div''" False example_store]
       addElement_emits [OF apart, of "''p''" "''createElement( tag )''" "Some ''div''" True example_store]
  show ?thesis
    by (simp add: example_block_def example_store_def example_generator_def)
qed

subsection \<open>C3\<close>

text \<open>
  C3, as the claim states it, fails. The example block meets every condition of
  the claim in a store with one fragment in its detach-raw builder; line 229 moves
  the fragment into unmount, and the unmount property is a function, not the no-op
  helper. And a block made without params, which BlockOptions allows, meets every
  condition as well, and \<^verbatim>\<open>render\<close> throws at \<^verbatim>\<open>this.params.join\<close> (line 330).
\<close>

theorem render_noop_counterexample:
  "isEmpty (cbs raw_store (mount (builders example_block))) \<and>
   isEmpty (cbs raw_store (update (builders example_block))) \<and>
   isEmpty (cbs raw_store (unmount (builders example_block))) \<and>
   isEmpty (cbs raw_store (destroy (builders example_block))) \<and>
   \<not> hasUpdateMethod example_block \<and> \<not> hasIntroMethod example_block \<and>
   \<not> hasOutroMethod example_block \<and>
   key example_block = None \<and> first example_block = None \<and>
   maps raw_store (variables example_block) = [] \<and> autofocus example_block = None \<and>
   fst (render example_block raw_store)
     = Inr [''function create_main_fragment ( state, component ) {'',
            ''return {'',
            ''mount: noop,'',
            ''unmount: function () {'',
            ''detachNode( raw_before );'',
            ''},'',
            ''destroy: noop'',
            ''};'',
            ''}''] \<and>
   Block.params bare_block = None \<and>
   fst (render bare_block example_store) = Inl TypeError"
  by code_simp

text \<open>
  C3, amended. When the detach-raw builder is empty as well, and the block has its
  list of params, \<^verbatim>\<open>render\<close> returns the function whose object has the three
  properties mount, unmount and destroy, each the no-op helper, and nothing else.
  The block's eight builders are eight objects.
\<close>

theorem render_noop:
  assumes "distinct (phases b)"
      and "isEmpty (cbs s (mount (builders b)))"
      and "isEmpty (cbs s (update (builders b)))"
      and "isEmpty (cbs s (unmount (builders b)))"
      and "isEmpty (cbs s (detachRaw (builders b)))"
      and "isEmpty (cbs s (destroy (builders b)))"
      and "\<not> hasUpdateMethod b" "\<not> hasIntroMethod b" "\<not> hasOutroMethod b"
      and "\<not> truthy (key b)" "\<not> truthy (first b)" "\<not> truthy (autofocus b)"
      and "maps s (variables b) = []"
      and "Block.params b = Some ps"
  shows "fst (render_properties b s)
           = Inr (None, [[''mount: '' @ helper (Block.generator b) ''noop'' @ '',''],
                         [''unmount: '' @ helper (Block.generator b) ''noop'' @ '',''],
                         [''destroy: '' @ helper (Block.generator b) ''noop'']]) \<and>
         fst (render b s)
           = Inr ([''function '' @ Block.name b @ '' ( '' @ join '', '' ps @ '', '' @ component b @ '' ) {'']
                  @ toString (cbs (snd (render b s)) (create (builders b)))
                  @ [''return {'',
                     ''mount: '' @ helper (Block.generator b) ''noop'' @ '','',
                     ''unmount: '' @ helper (Block.generator b) ''noop'' @ '','',
                     ''destroy: '' @ helper (Block.generator b) ''noop'',
                     ''};'',
                     ''}''])"
proof -
  let ?hi = "\<not> isEmpty (cbs s (intro (builders b)))"
  let ?ho = "\<not> isEmpty (cbs s (outro (builders b)))"
  let ?r1 = "flag_variable b ?hi ''introing'' s"
  let ?r2 = "flag_variable b ?ho ''outroing'' (snd ?r1)"
  let ?s3 = "render_phases b (snd ?r2)"
  have apart: "mount (builders b) \<noteq> create (builders b)" "mount (builders b) \<noteq> unmount (builders b)"
    "unmount (builders b) \<noteq> create (builders b)" "detachRaw (builders b) \<noteq> create (builders b)"
    "destroy (builders b) \<noteq> create (builders b)" "destroy (builders b) \<noteq> unmount (builders b)"
    using assms(1) by (auto simp: phases_def)
  have bare: "\<forall>k. get (maps s (variables b)) k = None"
    using assms(13) by (simp add: get_def)
  obtain i0 where i0: "fst ?r1 = Inr i0"
    using flag_variable_bare(1) [OF bare] by blast
  obtain o0 where o0: "fst ?r2 = Inr o0"
    using flag_variable_bare(1) [OF flag_variable_bare(2) [OF bare]] by blast
  obtain k p3 where head: "fst (render_head b ?s3) = Inr (k, p3)"
    using render_head_Inr [of b ?s3] assms(7) by blast
  have mount3: "isEmpty (cbs ?s3 (mount (builders b)))"
    using assms(2) apart by (simp add: render_phases_cbs)
  have unmount3: "isEmpty (cbs ?s3 (unmount (builders b)))"
    using assms(4,5) apart by (simp add: render_phases_unmount isEmpty_def)
  have destroy3: "isEmpty (cbs ?s3 (destroy (builders b)))"
    using assms(6) apart by (simp add: render_phases_cbs)
  have k: "k = None" and p3: "p3 = [mount_noop (helper (Block.generator b) ''noop'')]"
    using render_head_fst [OF head] mount3 assms(7,10,11) by simp_all
  have props: "fst (render_properties b s)
      = Inr (None, [mount_noop (helper (Block.generator b) ''noop''),
                    unmount_noop (helper (Block.generator b) ''noop''),
                    destroy_noop (helper (Block.generator b) ''noop'')])"
    using i0 o0 head k p3 unmount3 destroy3 assms(8,9)
    by (simp add: render_properties_unfold Let_def render_tail_fst)
  then have "fst (render b s)
      = Inr (block_function (Block.name b) ps (component b) []
               (toString (cbs (snd (render b s)) (create (builders b))))
               (toString [mount_noop (helper (Block.generator b) ''noop''),
                    unmount_noop (helper (Block.generator b) ''noop''),
                    destroy_noop (helper (Block.generator b) ''noop'')]))"
    using assms(10,14)
    by (simp add: render_unfold)
  with props show ?thesis
    by (simp add: block_function_def toString_def mount_noop_def unmount_noop_def destroy_noop_def)
qed

theorem render_noop_witness:
  "fst (render example_block example_store)
     = Inr [''function create_main_fragment ( state, component ) {'',
            ''return {'',
            ''mount: noop,'',
            ''unmount: noop,'',
            ''destroy: noop'',
            ''};'',
            ''}'']"
proof -
  have create: "cbs (snd (render example_block example_store)) (create (builders example_block)) = []"
    by code_simp
  have fields: "Block.name example_block = ''create_main_fragment''"
    "component example_block = ''component''"
    "helper (Block.generator example_block) = (\<lambda>h. h)"
    by (simp_all add: example_defs)
  have "fst (render_properties example_block example_store)
           = Inr (None, [[''mount: '' @ helper (Block.generator example_block) ''noop'' @ '',''],
                         [''unmount: '' @ helper (Block.generator example_block) ''noop'' @ '',''],
                         [''destroy: '' @ helper (Block.generator example_block) ''noop'']]) \<and>
         fst (render example_block example_store)
           = Inr ([''function '' @ Block.name example_block @ '' ( '' @ join '', '' [''state''] @ '', ''
                     @ component example_block @ '' ) {'']
                  @ toString (cbs (snd (render example_block example_store))
                                (create (builders example_block)))
                  @ [''return {'',
                     ''mount: '' @ helper (Block.generator example_block) ''noop'' @ '','',
                     ''unmount: '' @ helper (Block.generator example_block) ''noop'' @ '','',
                     ''destroy: '' @ helper (Block.generator example_block) ''noop'',
                     ''};'',
                     ''}''])"
    by (rule render_noop) (simp_all add: phases_def isEmpty_def example_defs)
  then show ?thesis
    by (simp add: create fields toString_def del: render_store)
qed

subsection \<open>C4\<close>

text \<open>
  C4. In the text that \<^verbatim>\<open>render\<close> returns for a block whose eight builders are eight
  objects, the object is made of the fragments of \<open>properties\<close>. With
  \<open>hasIntroMethod\<close> and fragments in the intro builder, the intro property is the
  guarded function: return if the introing flag is set, set it, clear the outroing
  flag when the outro builder has fragments, run the intro fragments, call mount.
  With \<open>hasIntroMethod\<close> and no intro fragments it is the function that only calls
  mount. Without \<open>hasIntroMethod\<close> there is no intro property.
\<close>

theorem render_intro:
  assumes "fst (render b s) = Inr out" and "distinct (phases b)"
  shows "\<exists>k props.
     fst (render_properties b s) = Inr (k, props) \<and>
     (\<exists>header. out = [header] @ toString (cbs (snd (render b s)) (create (builders b)))
                    @ [''return {''] @ toString props @ [''};'', ''}'']) \<and>
     property ''intro'' props
       = (if hasIntroMethod b
          then [if isEmpty (cbs s (intro (builders b)))
                then [''intro: function ( '' @ target b @ '', anchor ) {'',
                      ''this.mount( '' @ target b @ '', anchor );'',
                      ''},'']
                else [''intro: function ( '' @ target b @ '', anchor ) {'',
                      ''if ( '' @ introing_name b s @ '' ) return;'',
                      introing_name b s @ '' = true;'']
                     @ (if isEmpty (cbs s (outro (builders b))) then []
                        else [outroing_name b s @ '' = false;''])
                     @ toString (cbs s (intro (builders b)))
                     @ [''this.mount( '' @ target b @ '', anchor );'',
                        ''},'']]
          else [])"
proof -
  from render_Inr [OF assms(1)] obtain k props ps where
    rp: "fst (render_properties b s) = Inr (k, props)" and
    out: "out = block_function (Block.name b) ps (component b)
             (if truthy (key b) then '', '' @ tpl k else [])
             (toString (cbs (snd (render b s)) (create (builders b))))
             (toString props)"
    by blast
  from render_properties_Inr [OF rp] obtain p3 where
    head: "fst (render_head b (render_phases b
            (snd (flag_variable b (\<not> isEmpty (cbs s (outro (builders b)))) ''outroing''
                   (snd (flag_variable b (\<not> isEmpty (cbs s (intro (builders b)))) ''introing'' s))))))
       = Inr (k, p3)" and
    props: "props = fst (render_tail b
               (\<not> isEmpty (cbs s (intro (builders b))))
               (\<not> isEmpty (cbs s (outro (builders b))))
               (if isEmpty (cbs s (intro (builders b))) then None else Some (introing_name b s))
               (if isEmpty (cbs s (outro (builders b))) then None else Some (outroing_name b s))
               p3
               (snd (render_head b (render_phases b
                  (snd (flag_variable b (\<not> isEmpty (cbs s (outro (builders b)))) ''outroing''
                     (snd (flag_variable b (\<not> isEmpty (cbs s (intro (builders b)))) ''introing'' s))))))))"
    by blast
  have p3: "property ''intro'' p3 = []"
    by (rule render_head_property [OF head]) simp_all
  have "property ''intro'' props
       = (if hasIntroMethod b
          then [if isEmpty (cbs s (intro (builders b)))
                then intro_plain (target b)
                else intro_guarded (target b) (introing_name b s)
                       (if isEmpty (cbs s (outro (builders b))) then None
                        else Some (outroing_name b s @ '' = false;''))
                       (toString (cbs s (intro (builders b))))]
          else [])"
    unfolding props render_tail_fst render_tail_reads [OF assms(2)]
    by (simp add: p3)
  then have "property ''intro'' props
       = (if hasIntroMethod b
          then [if isEmpty (cbs s (intro (builders b)))
                then [''intro: function ( '' @ target b @ '', anchor ) {'',
                      ''this.mount( '' @ target b @ '', anchor );'',
                      ''},'']
                else [''intro: function ( '' @ target b @ '', anchor ) {'',
                      ''if ( '' @ introing_name b s @ '' ) return;'',
                      introing_name b s @ '' = true;'']
                     @ (if isEmpty (cbs s (outro (builders b))) then []
                        else [outroing_name b s @ '' = false;''])
                     @ toString (cbs s (intro (builders b)))
                     @ [''this.mount( '' @ target b @ '', anchor );'',
                        ''},'']]
          else [])"
    by (simp add: intro_plain_def intro_guarded_def optional_line_def)
  with rp out show ?thesis
    by (auto simp: block_function_def)
qed

theorem render_intro_witness:
  "\<exists>k props.
     fst (render_properties transition_block transition_store) = Inr (k, props) \<and>
     property ''intro'' props
       = [[''intro: function ( target, anchor ) {'',
           ''if ( introing ) return;'',
           ''introing = true;'',
           ''outroing = false;'',
           ''div_transition.run( true );'',
           ''this.mount( target, anchor );'',
           ''},'']]"
  using render_intro [OF render_transition transition_facts(1)]
  by (auto simp: transition_facts simp del: render_store)

subsection \<open>C5\<close>



subsection \<open>C6\<close>

text \<open>
  C6. When \<^verbatim>\<open>render\<close> returns, for a block whose eight builders are eight objects,
  the unmount builder holds the fragments of detach-raw, in their order, and then
  its own; the unmount property runs them in that order (or is the no-op helper
  when there are none); and the returned text contains the text of the detach-raw
  fragments followed at once by the text of the unmount fragments.
\<close>

theorem render_detach_first:
  assumes "fst (render b s) = Inr out" and "distinct (phases b)"
  shows "cbs (snd (render b s)) (unmount (builders b))
           = cbs s (detachRaw (builders b)) @ cbs s (unmount (builders b)) \<and>
         (\<exists>k props.
            fst (render_properties b s) = Inr (k, props) \<and>
            property ''unmount'' props
              = [if isEmpty (cbs s (detachRaw (builders b)) @ cbs s (unmount (builders b)))
                 then [''unmount: '' @ helper (Block.generator b) ''noop'' @ '','']
                 else [''unmount: function () {'']
                      @ toString (cbs s (detachRaw (builders b)))
                      @ toString (cbs s (unmount (builders b)))
                      @ [''},'']]) \<and>
         (\<exists>before after.
            out = before @ toString (cbs s (detachRaw (builders b)))
                    @ toString (cbs s (unmount (builders b))) @ after)"
proof -
  let ?hi = "\<not> isEmpty (cbs s (intro (builders b)))"
  let ?ho = "\<not> isEmpty (cbs s (outro (builders b)))"
  let ?s3 = "snd (render_head b (render_phases b
                  (snd (flag_variable b ?ho ''outroing'' (snd (flag_variable b ?hi ''introing'' s))))))"
  let ?D = "cbs s (detachRaw (builders b))" and ?U = "cbs s (unmount (builders b))"
  from render_Inr [OF assms(1)] obtain k props ps where
    rp: "fst (render_properties b s) = Inr (k, props)" and
    out: "out = block_function (Block.name b) ps (component b)
             (if truthy (key b) then '', '' @ tpl k else [])
             (toString (cbs (snd (render b s)) (create (builders b))))
             (toString props)"
    by blast
  from render_properties_Inr [OF rp] obtain p3 where
    head: "fst (render_head b (render_phases b
            (snd (flag_variable b ?ho ''outroing'' (snd (flag_variable b ?hi ''introing'' s))))))
       = Inr (k, p3)" and
    props: "props = fst (render_tail b ?hi ?ho
               (if isEmpty (cbs s (intro (builders b))) then None else Some (introing_name b s))
               (if isEmpty (cbs s (outro (builders b))) then None else Some (outroing_name b s))
               p3 ?s3)"
    by blast
  have apart: "unmount (builders b) \<noteq> create (builders b)"
    "detachRaw (builders b) \<noteq> create (builders b)"
    using assms(2) by (auto simp: phases_def)
  have after_render: "cbs (snd (render b s)) (unmount (builders b)) = ?D @ ?U"
    using render_properties_unmount [OF rp apart] by simp
  have p3: "property ''unmount'' p3 = []"
    by (rule render_head_property [OF head]) simp_all
  obtain pre post where split: "props = pre @ [if isEmpty (?D @ ?U)
          then unmount_noop (helper (Block.generator b) ''noop'')
          else unmount_function (toString (?D @ ?U))] @ post"
    unfolding props render_tail_fst render_tail_reads [OF assms(2)]
    by (metis append.assoc)
  have unm: "property ''unmount'' props
       = [if isEmpty (?D @ ?U)
          then unmount_noop (helper (Block.generator b) ''noop'')
          else unmount_function (toString (?D @ ?U))]"
    unfolding props render_tail_fst render_tail_reads [OF assms(2)]
    by (simp add: p3)
  have "\<exists>before after. toString props = before @ toString ?D @ toString ?U @ after"
  proof (cases "isEmpty (?D @ ?U)")
    case True
    then have "toString props = toString props @ toString ?D @ toString ?U @ []"
      by (simp add: isEmpty_def toString_def)
    then show ?thesis by blast
  next
    case False
    then have "toString props
        = (toString pre @ [''unmount: function () {'']) @ toString ?D @ toString ?U
          @ ([''},''] @ toString post)"
      by (simp add: split toString_def unmount_function_def)
    then show ?thesis by blast
  qed
  then obtain before after where "toString props = before @ toString ?D @ toString ?U @ after"
    by blast
  then have "out = (hd out # toString (cbs (snd (render b s)) (create (builders b))) @ [''return {''] @ before)
      @ toString ?D @ toString ?U @ (after @ [''};'', ''}''])"
    by (simp add: out block_function_def del: render_store)
  then have "\<exists>before after. out = before @ toString ?D @ toString ?U @ after"
    by blast
  moreover have "property ''unmount'' props
              = [if isEmpty (?D @ ?U)
                 then [''unmount: '' @ helper (Block.generator b) ''noop'' @ '','']
                 else [''unmount: function () {''] @ toString ?D @ toString ?U @ [''},'']]"
    by (simp add: unm unmount_noop_def unmount_function_def toString_def)
  ultimately show ?thesis
    using rp after_render by blast
qed

theorem render_detach_first_witness:
  "cbs (snd (render transition_block transition_store)) (unmount (builders transition_block))
     = [[''detachBetween( raw_before, raw_after );''], [''detachNode( div );'']] \<and>
   (\<exists>k props.
      fst (render_properties transition_block transition_store) = Inr (k, props) \<and>
      property ''unmount'' props
        = [[''unmount: function () {'',
            ''detachBetween( raw_before, raw_after );'',
            ''detachNode( div );'',
            ''},'']])"
  using render_detach_first [OF render_transition transition_facts(1)]
  by (auto simp: transition_facts toString_def isEmpty_def simp del: render_store)

subsection \<open>C7\<close>

text \<open>
  C7. After any sequence of calls of \<open>addDependencies\<close> on a block that the
  constructor has just made, the dependency set is the union of the arguments; from
  any store it is what it was, joined with that union. The right-hand sides do not
  depend on the order of the calls or on repetitions. No other operation of the
  block touches a set at all, and the construction of a child leaves the set of
  its parent as it is, so the set never loses an element.
\<close>

theorem addDependencies_union:
  assumes "fst (new_Block options s0) = Inr b"
  shows "sets (fold (addDependencies b) calls (snd (new_Block options s0))) (Block.dependencies b)
           = set (concat calls) \<and>
         sets (fold (addDependencies b) calls s) (Block.dependencies b)
           = sets s (Block.dependencies b) \<union> set (concat calls) \<and>
         sets (addElement b n e p i s) = sets s \<and>
         sets (mount' b n p s) = sets s \<and>
         sets (snd (addVariable b n x s)) = sets s \<and>
         sets (snd (alias' b n s)) = sets s \<and>
         sets (snd (render b s)) = sets s \<and>
         (fresh s0 < fresh s \<longrightarrow>
            sets (snd (child b options' s)) (Block.dependencies b) = sets s (Block.dependencies b))"
proof -
  obtain names where st: "snd (new_Block options s0) = allocated s0 names"
    using new_Block_Inr(8) [OF assms] by blast
  have dep: "Block.dependencies b = fresh s0"
    by (rule new_Block_Inr(3) [OF assms])
  have "sets (snd (child b options' s)) (fresh s0) = sets s (fresh s0)" if "fresh s0 < fresh s"
  proof (cases "BlockOptions.generator (assign b options')")
    case None
    then show ?thesis
      using that
      by (simp add: child_def new_Block_def split_def Let_def new_Set_def new_CodeBuilder_def new_Map_def)
   next
    case (Some g)
    show ?thesis
      using that by (simp add: child_def new_Block_Some [OF Some] Let_def)
  qed
  then show ?thesis
    by (simp add: fold_addDependencies_sets st dep)
qed

theorem addDependencies_union_witness:
  "fst (new_Block example_options empty_store) = Inr example_block \<and>
   sets (fold (addDependencies example_block) [[''a'', ''b''], [], [''b'', ''c'', ''a'']]
           (snd (new_Block example_options empty_store))) (Block.dependencies example_block)
     = {''a'', ''b'', ''c''} \<and>
   sets (fold (addDependencies example_block) [[''b'', ''c'', ''a''], [''a'', ''b'']]
           (snd (new_Block example_options empty_store))) (Block.dependencies example_block)
     = {''a'', ''b'', ''c''}"
proof -
  have made: "fst (new_Block example_options empty_store) = Inr example_block"
    by (simp add: new_Block_example)
  from addDependencies_union [OF made, of "[[''a'', ''b''], [], [''b'', ''c'', ''a'']]"]
       addDependencies_union [OF made, of "[[''b'', ''c'', ''a''], [''a'', ''b'']]"]
  show ?thesis
    using made by auto
qed

subsection \<open>C8\<close>

text \<open>
  C8, as the claim states it, fails. The error of line 148 is made from the name
  alone: a conflict between the initialisers 1 and 2 and a conflict between 3 and
  4 on the same name throw the same error, so the error cannot carry them.
\<close>

theorem addVariable_error_counterexample:
  "fst (addVariable example_block ''x'' (Some ''2'')
          (snd (addVariable example_block ''x'' (Some ''1'') example_store)))
     = Inl (Error (''Variable '' @ [CHR 0x27] @ ''x'' @ [CHR 0x27]
              @ '' already initialised with a different value'')) \<and>
   fst (addVariable example_block ''x'' (Some ''4'')
          (snd (addVariable example_block ''x'' (Some ''3'') example_store)))
     = Inl (Error (''Variable '' @ [CHR 0x27] @ ''x'' @ [CHR 0x27]
              @ '' already initialised with a different value''))"
  by (simp add: addVariable_def example_store_def has_def get_def conflict_message_def)

text \<open>
  C8, amended. When \<open>addVariable\<close> fails, the error is the one whose message is
  \<open>conflict_message\<close> of the variable name, and the name can be read back from the
  message; the name was registered with another initialiser, and the store is
  unchanged. The message holds neither initialiser.
\<close>

theorem addVariable_error:
  assumes "fst (addVariable b n x s) = Inl e"
  shows "e = Error (conflict_message n) \<and>
         (\<forall>n'. conflict_message n' = conflict_message n \<longrightarrow> n' = n) \<and>
         has (maps s (variables b)) n \<and> get (maps s (variables b)) n \<noteq> x \<and>
         snd (addVariable b n x s) = s"
  using assms
  by (auto simp: addVariable_def dest: conflict_message_inj split: if_splits)

theorem addVariable_error_witness:
  "fst (addVariable example_block ''x'' (Some ''2'')
          (snd (addVariable example_block ''x'' (Some ''1'') example_store)))
     = Inl (Error (conflict_message ''x'')) \<and>
   conflict_message ''x'' = ''Variable '' @ [CHR 0x27] @ ''x'' @ [CHR 0x27]
      @ '' already initialised with a different value''"
proof -
  have failed:
    "fst (addVariable example_block ''x'' (Some ''2'')
            (snd (addVariable example_block ''x'' (Some ''1'') example_store)))
       = Inl (Error (conflict_message ''x''))"
    by (simp add: addVariable_def example_store_def has_def get_def)
  from addVariable_error [OF failed] show ?thesis
    using failed by (simp add: conflict_message_def)
qed

subsection \<open>C9\<close>

text \<open>
  C9. For a block \<open>b\<close> whose objects exist in the store (their references are below
  \<open>fresh\<close>) and any options, \<open>child\<close> returns a block \<open>c\<close> whose eight builders,
  dependency set, variables map and aliases map are eleven objects allocated by this
  call, none of them an object of \<open>b\<close>, even when the options pass a dependency
  set. Creating \<open>c\<close> changes nothing that can be seen through \<open>b\<close>. From then on, in
  any store, no operation on \<open>c\<close> changes what can be seen through \<open>b\<close>, and no
  operation on \<open>b\<close> changes what can be seen through \<open>c\<close>.
\<close>

theorem child_owns_fresh_objects:
  assumes "\<forall>r \<in> set (owned b). r < fresh s"
  shows "\<exists>c. fst (child b options s) = Inr c \<and>
           distinct (owned c) \<and>
           (\<forall>r \<in> set (owned c). fresh s \<le> r \<and> r < fresh (snd (child b options s))) \<and>
           set (owned c) \<inter> set (owned b) = {} \<and>
           view b (snd (child b options s)) = view b s \<and>
           (\<forall>t deps n e p i x.
              view b (addDependencies c deps t) = view b t \<and>
              view b (addElement c n e p i t) = view b t \<and>
              view b (mount' c n p t) = view b t \<and>
              view b (snd (addVariable c n x t)) = view b t \<and>
              view b (snd (alias' c n t)) = view b t \<and>
              view b (snd (render c t)) = view b t \<and>
              view c (addDependencies b deps t) = view c t \<and>
              view c (addElement b n e p i t) = view c t \<and>
              view c (mount' b n p t) = view c t \<and>
              view c (snd (addVariable b n x t)) = view c t \<and>
              view c (snd (alias' b n t)) = view c t \<and>
              view c (snd (render b t)) = view c t)"
proof -
  obtain c where c: "fst (child b options s) = Inr c"
    using child_Inr by blast
  then have made: "fst (new_Block (assign b options) s) = Inr c"
    by (simp add: child_def)
  note refs = new_Block_Inr(3-6) [OF made]
  obtain names where st: "snd (child b options s) = allocated s names"
    using new_Block_Inr(8) [OF made] by (auto simp: child_def)
  have own: "owned c = [fresh s + 1, fresh s + 2, fresh s + 3, fresh s + 4, fresh s + 5, fresh s + 6,
      fresh s + 7, fresh s + 8, fresh s, fresh s + 10, fresh s + 9]"
    by (simp add: owned_def refs)
  have dist: "distinct (owned c)"
    by (simp add: own)
  have new: "\<forall>r \<in> set (owned c). fresh s \<le> r \<and> r < fresh (snd (child b options s))"
    by (simp add: own st)
  have apart: "set (owned c) \<inter> set (owned b) = {}"
    using assms new by fastforce
  have apart': "set (owned b) \<inter> set (owned c) = {}"
    using apart by blast
  have old: "view b (snd (child b options s)) = view b s"
  proof (rule view_eqI)
    fix r assume "r \<in> set (phases b)"
    then have "r < fresh s" using assms by (simp add: owned_def)
    then show "cbs (snd (child b options s)) r = cbs s r"
      by (simp add: st allocated_heaps)
  next
    have "Block.dependencies b < fresh s" "variables b < fresh s" "aliases b < fresh s"
      using assms by (simp_all add: owned_def)
    then show "sets (snd (child b options s)) (Block.dependencies b) = sets s (Block.dependencies b)"
      "maps (snd (child b options s)) (variables b) = maps s (variables b)"
      "maps (snd (child b options s)) (aliases b) = maps s (aliases b)"
      by (simp_all add: st allocated_heaps)
  qed
  show ?thesis
    using c dist new apart old view_frame [OF apart] view_frame [OF apart']
    by (intro exI [of _ c] conjI allI) (simp_all del: render_store)
qed

theorem child_owns_fresh_objects_witness:
  "\<exists>c. fst (child example_block child_options example_store) = Inr c \<and>
        distinct (owned c) \<and>
        set (owned c) \<inter> set (owned example_block) = {} \<and>
        Block.dependencies c \<noteq> Block.dependencies example_block \<and>
        view example_block
            (snd (addVariable c ''x'' (Some ''1'') (snd (child example_block child_options example_store))))
          = view example_block example_store"
proof -
  have exists: "\<forall>r \<in> set (owned example_block). r < fresh example_store"
    by (simp add: owned_def phases_def example_block_def example_store_def)
  from child_owns_fresh_objects [OF exists, of child_options] obtain c where
    c: "fst (child example_block child_options example_store) = Inr c" and
    d: "distinct (owned c)" and
    a: "set (owned c) \<inter> set (owned example_block) = {}" and
    kept: "view example_block (snd (child example_block child_options example_store))
             = view example_block example_store" and
    frame: "\<And>t. view example_block (snd (addVariable c ''x'' (Some ''1'') t)) = view example_block t"
    by blast
  have "Block.dependencies c \<noteq> Block.dependencies example_block"
    using a by (auto simp: owned_def)
  with c d a kept frame show ?thesis
    by auto
qed

subsection \<open>C10\<close>

text \<open>
  C10. Whatever the options are, a block that the constructor returns has no
  \<open>indexName\<close>: the field is \<^verbatim>\<open>undefined\<close> even when the options carry one. Of the
  pair only \<open>listName\<close> is copied (line 86).
\<close>

theorem new_Block_indexName:
  assumes "fst (new_Block options s) = Inr b"
  shows "Block.indexName b = None \<and> Block.listName b = BlockOptions.listName options"
  using new_Block_Inr(1,2) [OF assms] by simp

theorem new_Block_indexName_witness:
  "fst (new_Block example_options empty_store) = Inr example_block \<and>
   BlockOptions.indexName example_options = Some ''i'' \<and>
   Block.indexName example_block = None \<and>
   Block.listName example_block = Some ''each_block_value''"
proof -
  have made: "fst (new_Block example_options empty_store) = Inr example_block"
    by (simp add: new_Block_example)
  from new_Block_indexName [OF made] show ?thesis
    using made by (simp add: example_options_def)
qed

end
